theory Spec2Isabelle
  imports Main "HOL-Library.AList" "HOL-Library.Sublist"
begin

section \<open>Python values and exceptions\<close>

text \<open>
  The exceptions the modelled code can raise. \<open>Raised\<close> stands for any exception that
  comes out of a collaborator (frontend, backend, generator classes).
\<close>

datatype error =
    KeyError string
  | TypeError string
  | AttributeError string
  | RuntimeError string
  | Raised string

text \<open>
  The values a \<open>BuildContext\<close> holds: strings, lists, dictionaries with string keys
  (in insertion order) and opaque objects (the definition, frontend, backend, options
  and the intermediate representations).
\<close>

datatype pyval =
    PNone
  | PBool bool
  | PStr string
  | PList "pyval list"
  | PDict "(string \<times> pyval) list"
  | PObj nat

text \<open>Python truthiness (\<open>if x\<close>, \<open>not x\<close>, \<open>x and y\<close>).\<close>

fun truthy :: "pyval \<Rightarrow> bool" where
  "truthy PNone = False"
| "truthy (PBool b) = b"
| "truthy (PStr s) = (s \<noteq> [])"
| "truthy (PList xs) = (xs \<noteq> [])"
| "truthy (PDict d) = (d \<noteq> [])"
| "truthy (PObj n) = True"

text \<open>Sequencing of computations that may raise.\<close>

definition bind :: "error + 'a \<Rightarrow> ('a \<Rightarrow> error + 'b) \<Rightarrow> error + 'b" where
  "bind m f = (case m of Inl e \<Rightarrow> Inl e | Inr x \<Rightarrow> f x)"

section \<open>module_generator.py: BaseModuleGenerator and its builder reference\<close>

datatype AccessKind = READ_ONLY | READ_WRITE

record ('bnd, 'dt) FieldInfo =
  access :: AccessKind
  boundary :: 'bnd
  axes :: "string list"
  dtype :: 'dt

record 'dt ParameterInfo =
  param_dtype :: 'dt

text \<open>
  \<open>ModuleData\<close>: \<open>field_info\<close> and \<open>parameter_info\<close> are Python dictionaries, kept as
  association lists in insertion order; an entry \<open>None\<close> is the absent marker.
\<close>

record ('bnd, 'dt) ModuleData =
  field_info :: "(string \<times> ('bnd, 'dt) FieldInfo option) list"
  parameter_info :: "(string \<times> 'dt ParameterInfo option) list"
  unreferenced :: "string set"

definition ModuleData_init :: "('bnd, 'dt) ModuleData" where
  "ModuleData_init = \<lparr>field_info = [], parameter_info = [], unreferenced = {}\<rparr>"

text \<open>
  The attributes of the \<open>StencilBuilder\<close> that the generator reads. The builder class is
  not in the sources at hand, so a builder is this record of what is read from it.
\<close>

record StencilBuilder =
  class_name :: string
  backend_name_of :: string
  definition_doc :: "string option"

text \<open>
  \<open>BaseModuleGenerator\<close>: the attribute \<open>_builder\<close> is \<open>private_builder\<close>;
  \<open>None\<close> is Python's \<open>None\<close>.
\<close>

record ('bnd, 'dt) BaseModuleGenerator =
  private_builder :: "StencilBuilder option"
  args_data :: "('bnd, 'dt) ModuleData"
  template :: string

text \<open>\<open>__init__(self, builder=None)\<close>; the template text read from the file is a parameter.\<close>

definition BaseModuleGenerator_init ::
  "StencilBuilder option \<Rightarrow> string \<Rightarrow> ('bnd, 'dt) BaseModuleGenerator" where
  "BaseModuleGenerator_init b tmpl =
     \<lparr>private_builder = b, args_data = ModuleData_init, template = tmpl\<rparr>"

text \<open>
  The first two statements of \<open>__call__\<close>: \<open>if builder: self._builder = builder\<close> and
  \<open>self.args_data = args_data\<close>. A builder object is truthy, \<open>None\<close> is not.
\<close>

definition call_bind ::
  "('bnd, 'dt) BaseModuleGenerator \<Rightarrow> ('bnd, 'dt) ModuleData \<Rightarrow> StencilBuilder option
     \<Rightarrow> ('bnd, 'dt) BaseModuleGenerator" where
  "call_bind self ad b =
     (case b of
        Some b' \<Rightarrow> self\<lparr>private_builder := Some b', args_data := ad\<rparr>
      | None \<Rightarrow> self\<lparr>args_data := ad\<rparr>)"

text \<open>The property \<open>builder\<close>.\<close>

definition builder :: "('bnd, 'dt) BaseModuleGenerator \<Rightarrow> error + StencilBuilder" where
  "builder self =
     (case private_builder self of
        None \<Rightarrow> Inl (RuntimeError ''Builder attribute not initialized!'')
      | Some b \<Rightarrow> Inr b)"

text \<open>The property \<open>backend_name\<close> and the generation methods that go through \<open>builder\<close>.\<close>

definition backend_name :: "('bnd, 'dt) BaseModuleGenerator \<Rightarrow> error + string" where
  "backend_name self = bind (builder self) (\<lambda>b. Inr (backend_name_of b))"

definition generate_class_name :: "('bnd, 'dt) BaseModuleGenerator \<Rightarrow> error + string" where
  "generate_class_name self = bind (builder self) (\<lambda>b. Inr (class_name b))"

definition generate_docstring :: "('bnd, 'dt) BaseModuleGenerator \<Rightarrow> error + string" where
  "generate_docstring self =
     bind (builder self) (\<lambda>b. Inr (case definition_doc b of None \<Rightarrow> [] | Some d \<Rightarrow> d))"

definition generate_backend_name :: "('bnd, 'dt) BaseModuleGenerator \<Rightarrow> error + string" where
  "generate_backend_name self = backend_name self"

section \<open>module_generator.py: make_args_data_from_iir\<close>

text \<open>
  The part of the implementation IR (\<open>gt_ir.StencilImplementation\<close>) that
  \<open>make_args_data_from_iir\<close> reads. The node classes are declared in \<open>gt4py.ir\<close>,
  outside the sources at hand; their attributes are taken as the function uses them. Extents and data types stay
  abstract (\<open>'ext\<close>, \<open>'dt\<close>).
\<close>

datatype AccessIntent = INTENT_READ_ONLY | INTENT_READ_WRITE

datatype 'ext Accessor =
    FieldAccessor (symbol: string) (intent: AccessIntent) (extent: 'ext)
  | ParameterAccessor (symbol: string)

record 'ext Stage =
  accessors :: "'ext Accessor list"

record 'ext StageGroup =
  stages :: "'ext Stage list"

record 'ext MultiStage =
  groups :: "'ext StageGroup list"

record ArgumentInfo =
  name :: string
  is_keyword :: bool

record 'dt FieldDecl =
  decl_axes :: "string list"
  decl_dtype :: 'dt

record 'dt VarDecl =
  var_dtype :: 'dt

record ('ext, 'dt) StencilImplementation =
  multi_stages :: "'ext MultiStage list"
  api_signature :: "ArgumentInfo list"
  iir_fields :: "string \<rightharpoonup> 'dt FieldDecl"
  parameters :: "string \<rightharpoonup> 'dt VarDecl"
  fields_extents :: "string \<rightharpoonup> 'ext"
  iir_unreferenced :: "string set"

text \<open>A \<open>for\<close> loop whose body may raise: the first exception ends the loop.\<close>

fun for_loop :: "'a list \<Rightarrow> ('a \<Rightarrow> 's \<Rightarrow> error + 's) \<Rightarrow> 's \<Rightarrow> error + 's" where
  "for_loop [] body s = Inr s"
| "for_loop (x # xs) body s = bind (body x s) (for_loop xs body)"

text \<open>
  Lines 38-47: the four nested loops that fill \<open>out_fields\<close> with the symbols of the
  field accessors whose intent is \<open>READ_WRITE\<close>.
\<close>

definition add_out_field :: "'ext Accessor \<Rightarrow> string set \<Rightarrow> string set" where
  "add_out_field acc out =
     (case acc of
        FieldAccessor s i e \<Rightarrow> (if i = INTENT_READ_WRITE then insert s out else out)
      | ParameterAccessor s \<Rightarrow> out)"

definition out_fields :: "('ext, 'dt) StencilImplementation \<Rightarrow> string set" where
  "out_fields implementation_ir =
     fold (\<lambda>ms. fold (\<lambda>sg. fold (\<lambda>st. fold add_out_field (accessors st)) (stages sg)) (groups ms))
       (multi_stages implementation_ir) {}"

text \<open>
  Lines 50-68: the body of the loop over \<open>api_signature\<close>. A dictionary read with a
  missing key raises \<open>KeyError\<close>; \<open>to_boundary\<close> (a method of the extent class) is a
  parameter.
\<close>

definition process_arg ::
  "('ext \<Rightarrow> 'bnd) \<Rightarrow> ('ext, 'dt) StencilImplementation \<Rightarrow> string set \<Rightarrow> ArgumentInfo
     \<Rightarrow> ('bnd, 'dt) ModuleData \<Rightarrow> error + ('bnd, 'dt) ModuleData" where
  "process_arg to_boundary implementation_ir outs arg data =
     (if name arg \<in> dom (iir_fields implementation_ir) then
        (let acc_kind = (if name arg \<in> outs then READ_WRITE else READ_ONLY) in
         if name arg \<notin> iir_unreferenced implementation_ir then
           (case iir_fields implementation_ir (name arg) of
              None \<Rightarrow> Inl (KeyError (name arg))
            | Some field_decl \<Rightarrow>
               (case fields_extents implementation_ir (name arg) of
                  None \<Rightarrow> Inl (KeyError (name arg))
                | Some ext \<Rightarrow>
                    Inr (data\<lparr>field_info :=
                      AList.update (name arg)
                        (Some \<lparr>access = acc_kind, boundary = to_boundary ext,
                               axes = decl_axes field_decl, dtype = decl_dtype field_decl\<rparr>)
                        (field_info data)\<rparr>)))
         else Inr (data\<lparr>field_info := AList.update (name arg) None (field_info data)\<rparr>))
      else
        (if name arg \<notin> iir_unreferenced implementation_ir then
           (case parameters implementation_ir (name arg) of
              None \<Rightarrow> Inl (KeyError (name arg))
            | Some p \<Rightarrow>
                Inr (data\<lparr>parameter_info :=
                  AList.update (name arg) (Some \<lparr>param_dtype = var_dtype p\<rparr>)
                    (parameter_info data)\<rparr>))
         else Inr (data\<lparr>parameter_info := AList.update (name arg) None (parameter_info data)\<rparr>)))"

definition make_args_data_from_iir ::
  "('ext \<Rightarrow> 'bnd) \<Rightarrow> ('ext, 'dt) StencilImplementation \<Rightarrow> error + ('bnd, 'dt) ModuleData" where
  "make_args_data_from_iir to_boundary implementation_ir =
     bind (for_loop (api_signature implementation_ir)
             (process_arg to_boundary implementation_ir (out_fields implementation_ir))
             ModuleData_init)
       (\<lambda>data. Inr (data\<lparr>unreferenced := iir_unreferenced implementation_ir\<rparr>))"

text \<open>
  The write accesses of the program: some accessor of some stage is a field accessor of
  the field with intent \<open>READ_WRITE\<close>.
\<close>

definition has_write_access :: "('ext, 'dt) StencilImplementation \<Rightarrow> string \<Rightarrow> bool" where
  "has_write_access implementation_ir f =
     (\<exists>ms \<in> set (multi_stages implementation_ir). \<exists>sg \<in> set (groups ms).
        \<exists>st \<in> set (stages sg). \<exists>acc \<in> set (accessors st).
          (case acc of
             FieldAccessor s i e \<Rightarrow> s = f \<and> i = INTENT_READ_WRITE
           | ParameterAccessor s \<Rightarrow> False))"

text \<open>The keys of a dictionary filled by a loop: each key stands where it was first set.\<close>

definition first_occurrences :: "'a list \<Rightarrow> 'a list" where
  "first_occurrences xs = rev (remdups (rev xs))"

text \<open>
  A small implementation IR for the examples: fields \<open>a\<close> (written), \<open>b\<close> (declared but
  unreferenced) and \<open>c\<close> (read), and the unreferenced scalar parameter \<open>p\<close>, declared in
  the order \<open>a, b, p, c\<close>.
\<close>

definition demo_iir :: "(nat, string) StencilImplementation" where
  "demo_iir =
     \<lparr>multi_stages =
        [\<lparr>groups = [\<lparr>stages = [\<lparr>accessors =
           [FieldAccessor ''a'' INTENT_READ_WRITE 0, FieldAccessor ''c'' INTENT_READ_ONLY 1]\<rparr>]\<rparr>]\<rparr>],
      api_signature =
        [\<lparr>name = ''a'', is_keyword = False\<rparr>, \<lparr>name = ''b'', is_keyword = False\<rparr>,
         \<lparr>name = ''p'', is_keyword = False\<rparr>, \<lparr>name = ''c'', is_keyword = False\<rparr>],
      iir_fields =
        [''a'' \<mapsto> \<lparr>decl_axes = [''I'', ''J'', ''K''], decl_dtype = ''float64''\<rparr>,
         ''b'' \<mapsto> \<lparr>decl_axes = [''I'', ''J'', ''K''], decl_dtype = ''float64''\<rparr>,
         ''c'' \<mapsto> \<lparr>decl_axes = [''I'', ''J'', ''K''], decl_dtype = ''float64''\<rparr>],
      parameters = [''p'' \<mapsto> \<lparr>var_dtype = ''float64''\<rparr>],
      fields_extents = [''a'' \<mapsto> 0, ''c'' \<mapsto> 1],
      iir_unreferenced = {''b'', ''p''}\<rparr>"

definition demo_data :: "(nat, string) ModuleData" where
  "demo_data =
     \<lparr>field_info =
        [(''a'', Some \<lparr>access = READ_WRITE, boundary = 0, axes = [''I'', ''J'', ''K''],
                      dtype = ''float64''\<rparr>),
         (''b'', None),
         (''c'', Some \<lparr>access = READ_ONLY, boundary = 1, axes = [''I'', ''J'', ''K''],
                      dtype = ''float64''\<rparr>)],
      parameter_info = [(''p'', None)],
      unreferenced = {''b'', ''p''}\<rparr>"

section \<open>Access collector (OIR)\<close>

text \<open>
  The repository's sources at hand hold the test of \<open>AccessCollector\<close>
  (\<open>test_utils.py\<close>) but neither the collector
  (\<open>gtc.passes.oir_optimizations.utils\<close>) nor the OIR node classes. Both are taken from
  sections 3 and 4.1 of the specification.
\<close>

text \<open>
  Modelled from the spec: the field accesses of an OIR expression (the OIR classes are
  missing), "each carrying a field name and a signed 3-axis integer offset (i, j, k)"
  inside "a right-hand expression tree".
\<close>

type_synonym offset = "int \<times> int \<times> int"

datatype oir_expr =
    OirFieldAccess string offset
  | OirLiteral string
  | OirBinaryOp oir_expr oir_expr

text \<open>
  Modelled from the spec: the OIR statement (class missing), "an assignment with a left-hand field access
  (the write target, always at relative offset (0,0,0) on its own field) and a right-hand
  expression tree containing zero or more field accesses".
\<close>

datatype oir_stmt = OirAssignStmt string oir_expr

text \<open>
  Modelled from the spec: the loop order of a vertical loop (\<open>gtc.common.LoopOrder\<close> is
  missing), "forward/backward/parallel".
\<close>

datatype LoopOrder = PARALLEL | FORWARD | BACKWARD

text \<open>
  Modelled from the spec: the horizontal execution (class missing), "an ordered list of statements and an
  optional guarding condition (a boolean field access, mask)", and the nodes around it:
  vertical intervals inside vertical loops inside the stencil program.
\<close>

record HorizontalExecution =
  statements :: "oir_stmt list"
  mask :: "(string \<times> offset) option"

record OirVerticalInterval =
  horizontal_executions :: "HorizontalExecution list"

record OirVerticalLoop =
  oir_loop_order :: LoopOrder
  oir_intervals :: "OirVerticalInterval list"

record StencilProgram =
  oir_vertical_loops :: "OirVerticalLoop list"

text \<open>
  Modelled from the spec: \<open>AccessCollector.Result\<close> (class missing), "mapping field_name to set of read
  offsets, mapping field_name to set of write offsets"; the property \<open>accesses\<close> "returns,
  per field, the union of both sets".
\<close>

record AccessCollector_Result =
  reads :: "string \<rightharpoonup> offset set"
  writes :: "string \<rightharpoonup> offset set"

definition accesses :: "AccessCollector_Result \<Rightarrow> string \<Rightarrow> offset set" where
  "accesses res f =
     (case reads res f of None \<Rightarrow> {} | Some s \<Rightarrow> s) \<union> (case writes res f of None \<Rightarrow> {} | Some s \<Rightarrow> s)"

text \<open>
  Modelled from the spec: recording an access in the missing collector, "offsets and
  accesses accumulate into per-field sets (duplicates collapse)".
\<close>

definition add_access :: "(string \<rightharpoonup> offset set) \<Rightarrow> string \<Rightarrow> offset \<Rightarrow> (string \<rightharpoonup> offset set)" where
  "add_access m f off = m(f \<mapsto> insert off (case m f of None \<Rightarrow> {} | Some s \<Rightarrow> s))"

text \<open>
  Modelled from the spec: the reads of an expression in the missing collector, "every field
  access appearing in the right-hand expression, at its recorded offset".
\<close>

fun expr_reads :: "oir_expr \<Rightarrow> (string \<times> offset) list" where
  "expr_reads (OirFieldAccess f off) = [(f, off)]"
| "expr_reads (OirLiteral v) = []"
| "expr_reads (OirBinaryOp l r) = expr_reads l @ expr_reads r"

text \<open>
  Modelled from the spec: the visit of a statement in the missing collector, section 4.1,
  "record a write access for the
  statement's left-hand field at offset (0,0,0); record a read access for every field access
  appearing in the right-hand expression, at its recorded offset".
\<close>

fun visit_stmt :: "oir_stmt \<Rightarrow> AccessCollector_Result \<Rightarrow> AccessCollector_Result" where
  "visit_stmt (OirAssignStmt target rhs) res =
     res\<lparr>writes := add_access (writes res) target (0, 0, 0),
         reads := fold (\<lambda>(f, off) m. add_access m f off) (expr_reads rhs) (reads res)\<rparr>"

text \<open>
  Modelled from the spec: the visit of a horizontal execution in the missing collector,
  section 4.1, "if the HorizontalExecution carries a guarding
  condition, record a read access for the field referenced by the condition at its offset";
  the statements of the block are visited whether or not there is a condition.
\<close>

definition visit_horizontal_execution ::
  "HorizontalExecution \<Rightarrow> AccessCollector_Result \<Rightarrow> AccessCollector_Result" where
  "visit_horizontal_execution he res =
     (let res1 = fold visit_stmt (statements he) res in
      case mask he of
        None \<Rightarrow> res1
      | Some (f, off) \<Rightarrow> res1\<lparr>reads := add_access (reads res1) f off\<rparr>)"

text \<open>
  Modelled from the spec: \<open>AccessCollector.apply\<close> (missing), section 4.1, "for every VerticalLoop,
  every VerticalInterval, every HorizontalExecution and every Statement inside it".
\<close>

definition AccessCollector_apply :: "StencilProgram \<Rightarrow> AccessCollector_Result" where
  "AccessCollector_apply program =
     fold (\<lambda>vl. fold (\<lambda>vi. fold visit_horizontal_execution (horizontal_executions vi))
                   (oir_intervals vl))
       (oir_vertical_loops program) \<lparr>reads = Map.empty, writes = Map.empty\<rparr>"

text \<open>
  The program of \<open>test_access_collector\<close> (lines 32-57): \<open>AssignStmtBuilder(l, r, o)\<close>
  assigns the field \<open>r\<close> read at offset \<open>o\<close> (default \<open>(0, 0, 0)\<close>) to \<open>l\<close>.
\<close>

definition access_collector_testee :: StencilProgram where
  "access_collector_testee =
     \<lparr>oir_vertical_loops =
        [\<lparr>oir_loop_order = PARALLEL,
          oir_intervals =
            [\<lparr>horizontal_executions =
               [\<lparr>statements =
                   [OirAssignStmt ''tmp'' (OirFieldAccess ''foo'' (1, 0, 0)),
                    OirAssignStmt ''bar'' (OirFieldAccess ''tmp'' (0, 0, 0))],
                 mask = None\<rparr>,
                \<lparr>statements =
                   [OirAssignStmt ''baz'' (OirFieldAccess ''tmp'' (0, 1, 0))],
                 mask = Some (''mask'', (- 1, - 1, 1))\<rparr>]\<rparr>]\<rparr>]\<rparr>"

section \<open>Fields metadata pass (GTIR)\<close>

text \<open>
  The GTIR nodes are written as \<open>test_fields_metadata_pass.py\<close> constructs them. The pass
  itself (\<open>gt4py.backend.gtc_backend.fields_metadata_pass\<close>) is not in the sources at
  hand; it is taken from sections 3 and 4.2 of the specification.
\<close>

datatype CartesianOffset = CartesianOffset (off_i: int) (off_j: int) (off_k: int)

datatype gtir_expr =
    FieldAccess string CartesianOffset
  | Literal string
  | BinaryOp gtir_expr gtir_expr

definition centered :: "string \<Rightarrow> gtir_expr" where
  "centered f = FieldAccess f (CartesianOffset 0 0 0)"

datatype AssignStmt = AssignStmt gtir_expr gtir_expr

datatype LevelMarker = LEVEL_START | LEVEL_END

record AxisBound =
  level :: LevelMarker
  bound_offset :: int

record HorizontalLoop =
  stmt :: AssignStmt

record VerticalInterval =
  interval_start :: AxisBound
  interval_end :: AxisBound
  horizontal_loops :: "HorizontalLoop list"

record VerticalLoop =
  loop_order :: LoopOrder
  vertical_intervals :: "VerticalInterval list"

record Stencil =
  vertical_loops :: "VerticalLoop list"

datatype DataType = FLOAT64 | BOOL

record GtirFieldDecl =
  field_name :: string
  field_dtype :: DataType

record Computation =
  computation_name :: string
  params :: "GtirFieldDecl list"
  stencils :: "Stencil list"

text \<open>\<open>FieldBoundary(i=(before, after), j=..., k=...)\<close>.\<close>

datatype FieldBoundary =
  FieldBoundary (bnd_i: "int \<times> int") (bnd_j: "int \<times> int") (bnd_k: "int \<times> int")

text \<open>
  Modelled from the spec: the field accesses of a statement, for the missing
  \<open>FieldsMetadataPass\<close>: the left-hand access and "zero or more field accesses" of the
  right-hand expression.
\<close>

fun expr_accesses :: "gtir_expr \<Rightarrow> (string \<times> CartesianOffset) list" where
  "expr_accesses (FieldAccess f off) = [(f, off)]"
| "expr_accesses (Literal v) = []"
| "expr_accesses (BinaryOp l r) = expr_accesses l @ expr_accesses r"

fun stmt_accesses :: "AssignStmt \<Rightarrow> (string \<times> CartesianOffset) list" where
  "stmt_accesses (AssignStmt l r) = expr_accesses l @ expr_accesses r"

text \<open>
  Modelled from the spec: the accesses the missing \<open>FieldsMetadataPass\<close> scans, "all
  recorded offsets (reads and writes together)", in program order, and those of one field.
\<close>

definition computation_accesses :: "Computation \<Rightarrow> (string \<times> CartesianOffset) list" where
  "computation_accesses c =
     concat (map (\<lambda>st. concat (map (\<lambda>vl. concat (map (\<lambda>vi.
        concat (map (\<lambda>hl. stmt_accesses (stmt hl)) (horizontal_loops vi)))
        (vertical_intervals vl))) (vertical_loops st))) (stencils c))"

definition observed_offsets :: "Computation \<Rightarrow> string \<Rightarrow> CartesianOffset list" where
  "observed_offsets c f = map snd (filter (\<lambda>a. fst a = f) (computation_accesses c))"

text \<open>
  Modelled from the spec: one step of the scan of the missing \<open>FieldsMetadataPass\<close>,
  section 4.2, "for each field and each axis independently, scan all recorded offsets and
  compute margin_before/margin_after"; a field starts with "(0,0)" on every axis, and each
  offset scanned widens the margin it points out of.
\<close>

definition extend_margin :: "int \<times> int \<Rightarrow> int \<Rightarrow> int \<times> int" where
  "extend_margin m off = (max (fst m) (- off), max (snd m) off)"

definition zero_boundary :: FieldBoundary where
  "zero_boundary = FieldBoundary (0, 0) (0, 0) (0, 0)"

definition extend_boundary :: "CartesianOffset \<Rightarrow> FieldBoundary \<Rightarrow> FieldBoundary" where
  "extend_boundary off b =
     FieldBoundary (extend_margin (bnd_i b) (off_i off)) (extend_margin (bnd_j b) (off_j off))
       (extend_margin (bnd_k b) (off_k off))"

definition record_offset ::
  "string \<times> CartesianOffset \<Rightarrow> (string \<rightharpoonup> FieldBoundary) \<Rightarrow> (string \<rightharpoonup> FieldBoundary)" where
  "record_offset a metas =
     metas(fst a \<mapsto> extend_boundary (snd a)
                      (case metas (fst a) of None \<Rightarrow> zero_boundary | Some b \<Rightarrow> b))"

text \<open>
  Modelled from the spec: \<open>FieldsMetadataPass\<close> (missing), section 4.2, giving the boundary of every
  field the computation accesses (\<open>fields_metadata.metas[f].boundary\<close>).
\<close>

definition FieldsMetadataPass :: "Computation \<Rightarrow> (string \<rightharpoonup> FieldBoundary)" where
  "FieldsMetadataPass c = fold record_offset (computation_accesses c) Map.empty"

text \<open>The computation of \<open>test_copy_shift\<close> (lines 35-64) for a given offset.\<close>

definition copy_shift :: "CartesianOffset \<Rightarrow> Computation" where
  "copy_shift off =
     \<lparr>computation_name = ''copy_shift'',
      params = [\<lparr>field_name = ''a'', field_dtype = FLOAT64\<rparr>,
                \<lparr>field_name = ''b'', field_dtype = FLOAT64\<rparr>],
      stencils =
        [\<lparr>vertical_loops =
           [\<lparr>loop_order = FORWARD,
             vertical_intervals =
               [\<lparr>interval_start = \<lparr>level = LEVEL_START, bound_offset = 0\<rparr>,
                 interval_end = \<lparr>level = LEVEL_END, bound_offset = 0\<rparr>,
                 horizontal_loops =
                   [\<lparr>stmt = AssignStmt (centered ''a'') (FieldAccess ''b'' off)\<rparr>]\<rparr>]\<rparr>]\<rparr>]\<rparr>"

section \<open>build.py: BuildContext\<close>

text \<open>
  \<open>BuildContext._data\<close> is a dictionary from keys to values. Nothing in the modelled code
  iterates over it, so it is a map.
\<close>

type_synonym ctx = "string \<rightharpoonup> pyval"

text \<open>
  The collaborators: the frontend, the backend, the generator classes and
  \<open>gt4py.analysis.transform\<close> are not in the sources at hand. Each method is a
  function of the receiver and its arguments that returns a value or raises; the first
  argument of a method is the object it is called on.
\<close>

record collaborators =
  definition_module :: "pyval \<Rightarrow> pyval"
  definition_name :: "pyval \<Rightarrow> error + pyval"
  py_str :: "pyval \<Rightarrow> string"
  BuildOptions :: "pyval \<Rightarrow> pyval \<Rightarrow> pyval \<Rightarrow> error + pyval"
  get_options_id :: "pyval \<Rightarrow> pyval \<Rightarrow> error + pyval"
  get_stencil_id :: "pyval \<Rightarrow> pyval \<Rightarrow> pyval \<Rightarrow> pyval \<Rightarrow> pyval \<Rightarrow> error + pyval"
  generate :: "pyval \<Rightarrow> pyval \<Rightarrow> pyval \<Rightarrow> pyval \<Rightarrow> error + pyval"
  check_options :: "pyval \<Rightarrow> pyval \<Rightarrow> error + unit"
  transform :: "pyval \<Rightarrow> pyval \<Rightarrow> error + pyval"
  BINDINGS_LANGUAGES :: "pyval \<Rightarrow> error + pyval"
  SRC_EXTENSION :: "pyval \<Rightarrow> error + pyval"
  CPU_ARCHITECTURE :: "pyval \<Rightarrow> error + pyval"
  get_pyext_class_name :: "pyval \<Rightarrow> pyval \<Rightarrow> error + pyval"
  get_pyext_module_name :: "pyval \<Rightarrow> pyval \<Rightarrow> error + pyval"
  PYEXT_GENERATOR_CLASS :: "pyval \<Rightarrow> pyval \<Rightarrow> pyval \<Rightarrow> pyval \<Rightarrow> pyval \<Rightarrow> error + pyval"
  pyext_generator_call :: "pyval \<Rightarrow> pyval \<Rightarrow> error + pyval"
  as_dict :: "pyval \<Rightarrow> error + pyval"
  GENERATOR_CLASS :: "pyval \<Rightarrow> pyval \<Rightarrow> error + pyval"
  generator_call :: "pyval \<Rightarrow> pyval \<Rightarrow> pyval \<Rightarrow> error + pyval"

text \<open>\<open>self.ctx[key]\<close> and \<open>self.ctx.get(key, default)\<close>.\<close>

definition getitem :: "ctx \<Rightarrow> string \<Rightarrow> error + pyval" where
  "getitem c key = (case c key of None \<Rightarrow> Inl (KeyError key) | Some v \<Rightarrow> Inr v)"

definition ctx_get :: "ctx \<Rightarrow> string \<Rightarrow> pyval \<Rightarrow> pyval" where
  "ctx_get c key dflt = (case c key of None \<Rightarrow> dflt | Some v \<Rightarrow> v)"

definition set_no_replace :: "ctx \<Rightarrow> string \<Rightarrow> pyval \<Rightarrow> ctx" where
  "set_no_replace c key v = (if key \<notin> dom c then c(key \<mapsto> v) else c)"

text \<open>A value inside an f-string: a string stands for itself, anything else for its \<open>str\<close>.\<close>

definition format_value :: "collaborators \<Rightarrow> pyval \<Rightarrow> string" where
  "format_value env v = (case v of PStr s \<Rightarrow> s | _ \<Rightarrow> py_str env v)"

text \<open>
  \<open>key in v\<close>: a key of a dictionary, an element of a list, a substring of a string; any
  other value is not a container.
\<close>

fun contains :: "pyval \<Rightarrow> string \<Rightarrow> error + bool" where
  "contains (PDict d) key = Inr (key \<in> fst ` set d)"
| "contains (PList xs) key = Inr (PStr key \<in> set xs)"
| "contains (PStr s) key = Inr (sublist key s)"
| "contains v key = Inl (TypeError ''argument is not iterable'')"

text \<open>\<open>v.get(key, default)\<close>, \<open>v.pop(key)\<close> and \<open>v[key] = x\<close> on a value.\<close>

fun dict_get :: "pyval \<Rightarrow> string \<Rightarrow> pyval \<Rightarrow> error + pyval" where
  "dict_get (PDict d) key dflt = Inr (case map_of d key of None \<Rightarrow> dflt | Some v \<Rightarrow> v)"
| "dict_get v key dflt = Inl (AttributeError ''get'')"

fun dict_pop :: "pyval \<Rightarrow> string \<Rightarrow> error + (pyval \<times> pyval)" where
  "dict_pop (PDict d) key =
     (case map_of d key of
        None \<Rightarrow> Inl (KeyError key)
      | Some v \<Rightarrow> Inr (v, PDict (AList.delete key d)))"
| "dict_pop (PList xs) key = Inl (TypeError ''list.pop'')"
| "dict_pop v key = Inl (AttributeError ''pop'')"

fun setitem :: "pyval \<Rightarrow> string \<Rightarrow> pyval \<Rightarrow> error + pyval" where
  "setitem (PDict d) key x = Inr (PDict (AList.update key x d))"
| "setitem v key x = Inl (TypeError ''item assignment'')"

text \<open>
  \<open>BuildContext.__init__(self, definition, **kwargs)\<close>. A keyword argument named
  \<open>definition\<close> cannot be passed next to the positional one. The arguments of each
  \<open>_set_no_replace\<close> call are evaluated before the call, so \<open>definition.__name__\<close> and
  \<open>BuildOptions(...)\<close> can raise even when the key is already there.
\<close>

definition BuildContext_init :: "collaborators \<Rightarrow> pyval \<Rightarrow> ctx \<Rightarrow> error + ctx" where
  "BuildContext_init env definition kwargs =
     (if ''definition'' \<in> dom kwargs
      then Inl (TypeError ''got multiple values for argument definition'')
      else
        (let data0 = (\<lambda>k. case kwargs k of
                            None \<Rightarrow> None
                          | Some v \<Rightarrow> (if v \<noteq> PNone then Some v else None));
             data1 = data0(''definition'' \<mapsto> definition);
             data2 = set_no_replace data1 ''module'' (definition_module env definition)
         in bind (definition_name env definition) (\<lambda>nm.
            let data3 = set_no_replace data2 ''name'' nm;
                data4 = set_no_replace data3 ''externals'' (PDict [])
            in bind (getitem data4 ''module'') (\<lambda>m.
               bind (getitem data4 ''name'') (\<lambda>n.
               let data5 = set_no_replace data4 ''qualified_name''
                             (PStr (format_value env m @ ''.'' @ format_value env n));
                   data6 = set_no_replace data5 ''build_info'' (PDict [])
               in bind (getitem data6 ''name'') (\<lambda>n'.
                  bind (getitem data6 ''module'') (\<lambda>m'.
                  bind (getitem data6 ''build_info'') (\<lambda>bi.
                  bind (BuildOptions env n' m' bi) (\<lambda>opts.
                  Inr (set_no_replace data6 ''options'' opts))))))))))"

section \<open>build.py: the build stages\<close>

datatype stage = BeginStage | IRStage | IIRStage | SourceStage | BindingsStage

text \<open>\<open>BeginStage._make\<close> only logs.\<close>

definition make_BeginStage :: "collaborators \<Rightarrow> ctx \<Rightarrow> error + ctx" where
  "make_BeginStage env c = Inr c"

text \<open>\<open>IRStage._make\<close> (lines 133-147).\<close>

definition make_IRStage :: "collaborators \<Rightarrow> ctx \<Rightarrow> error + ctx" where
  "make_IRStage env c =
     bind (getitem c ''frontend'') (\<lambda>frontend.
     bind (getitem c ''backend'') (\<lambda>backend.
     bind (getitem c ''options'') (\<lambda>options.
     bind (get_options_id env backend options) (\<lambda>oid.
     let c1 = c(''options_id'' \<mapsto> oid) in
     bind (getitem c1 ''qualified_name'') (\<lambda>qualified_name.
     bind (getitem c1 ''definition'') (\<lambda>definition.
     bind (getitem c1 ''externals'') (\<lambda>externals.
     bind (getitem c1 ''options_id'') (\<lambda>options_id.
     bind (get_stencil_id env frontend qualified_name definition externals options_id) (\<lambda>sid.
     let c2 = c1(''id'' \<mapsto> sid) in
     bind (getitem c2 ''definition'') (\<lambda>definition'.
     bind (getitem c2 ''externals'') (\<lambda>externals'.
     bind (getitem c2 ''options'') (\<lambda>options'.
     bind (generate env frontend definition' externals' options') (\<lambda>ir.
     Inr (c2(''ir'' \<mapsto> ir)))))))))))))))"

text \<open>\<open>IIRStage._make\<close> (lines 170-175).\<close>

definition make_IIRStage :: "collaborators \<Rightarrow> ctx \<Rightarrow> error + ctx" where
  "make_IIRStage env c =
     bind (getitem c ''backend'') (\<lambda>backend.
     bind (getitem c ''options'') (\<lambda>options.
     bind (check_options env backend options) (\<lambda>u.
     bind (getitem c ''ir'') (\<lambda>ir.
     bind (getitem c ''options'') (\<lambda>options'.
     bind (transform env ir options') (\<lambda>iir.
     Inr (c(''iir'' \<mapsto> iir))))))))"

text \<open>\<open>SourceStage._make_py_module\<close> (lines 223-228).\<close>

definition make_py_module :: "collaborators \<Rightarrow> ctx \<Rightarrow> error + ctx" where
  "make_py_module env c =
     bind (getitem c ''backend'') (\<lambda>backend.
     bind (getitem c ''options'') (\<lambda>options.
     bind (as_dict env options) (\<lambda>generator_options.
     bind (GENERATOR_CLASS env backend generator_options) (\<lambda>generator.
     let c1 = c(''generator_options'' \<mapsto> generator_options) in
     bind (getitem c1 ''name'') (\<lambda>nm.
     bind (getitem c1 ''id'') (\<lambda>sid.
     bind (getitem c1 ''iir'') (\<lambda>iir.
     bind (generator_call env generator sid iir) (\<lambda>text.
     Inr (c1(''src'' \<mapsto> PDict (AList.update (format_value env nm @ ''.py'') text [])))))))))))"

text \<open>
  Lines 215-218 of \<open>SourceStage._make_lang_src\<close>: the entry \<open>computation.src\<close> of
  \<open>src\<close> is renamed after the backend's source extension. The right-hand side (the
  \<open>pop\<close>) is evaluated before the target of the assignment.
\<close>

definition rename_computation_src :: "collaborators \<Rightarrow> pyval \<Rightarrow> ctx \<Rightarrow> error + ctx" where
  "rename_computation_src env backend c =
     bind (getitem c ''src'') (\<lambda>src.
     bind (contains src ''computation.src'') (\<lambda>found.
     if found then
       bind (getitem c ''src'') (\<lambda>src1.
       bind (dict_pop src1 ''computation.src'') (\<lambda>(v, src2).
       let c1 = c(''src'' \<mapsto> src2) in
       bind (getitem c1 ''src'') (\<lambda>src3.
       bind (SRC_EXTENSION env backend) (\<lambda>ext.
       bind (setitem src3 (''computation.'' @ format_value env ext) v) (\<lambda>src4.
       Inr (c1(''src'' \<mapsto> src4)))))))
     else Inr c))"

text \<open>
  Lines 219-221: the entry \<open>bindings.cpp\<close> of \<open>src\<close> is moved into \<open>bindings_src\<close>,
  which is created when it is not there.
\<close>

definition move_bindings_cpp :: "ctx \<Rightarrow> error + ctx" where
  "move_bindings_cpp c =
     bind (getitem c ''src'') (\<lambda>src.
     bind (contains src ''bindings.cpp'') (\<lambda>found.
     if found then
       (let c1 = c(''bindings_src'' \<mapsto> ctx_get c ''bindings_src'' (PDict [])) in
        bind (getitem c1 ''src'') (\<lambda>src1.
        bind (dict_pop src1 ''bindings.cpp'') (\<lambda>(v, src2).
        let c2 = c1(''src'' \<mapsto> src2) in
        bind (getitem c2 ''bindings_src'') (\<lambda>bs.
        bind (setitem bs ''bindings.cpp'' v) (\<lambda>bs'.
        Inr (c2(''bindings_src'' \<mapsto> bs')))))))
     else Inr c))"

text \<open>\<open>SourceStage._make_lang_src\<close> (lines 206-221).\<close>

definition make_lang_src :: "collaborators \<Rightarrow> ctx \<Rightarrow> error + ctx" where
  "make_lang_src env c =
     bind (getitem c ''backend'') (\<lambda>backend.
     bind (getitem c ''id'') (\<lambda>sid.
     bind (get_pyext_class_name env backend sid) (\<lambda>cls_name.
     bind (getitem c ''id'') (\<lambda>sid'.
     bind (get_pyext_module_name env backend sid') (\<lambda>mod_name.
     bind (CPU_ARCHITECTURE env backend) (\<lambda>arch.
     bind (getitem c ''options'') (\<lambda>options.
     bind (PYEXT_GENERATOR_CLASS env backend cls_name mod_name arch options) (\<lambda>generator.
     bind (getitem c ''iir'') (\<lambda>iir.
     bind (pyext_generator_call env generator iir) (\<lambda>src.
     bind (rename_computation_src env backend (c(''src'' \<mapsto> src))) move_bindings_cpp))))))))))"

text \<open>\<open>SourceStage._make\<close> (lines 199-204).\<close>

definition make_SourceStage :: "collaborators \<Rightarrow> ctx \<Rightarrow> error + ctx" where
  "make_SourceStage env c =
     bind (getitem c ''backend'') (\<lambda>backend.
     bind (BINDINGS_LANGUAGES env backend) (\<lambda>langs.
     if \<not> truthy langs then make_py_module env c else make_lang_src env c))"

text \<open>
  \<open>BindingsStage._make\<close> (lines 262-279). The default of
  \<open>self.ctx.get("pyext_module_name", ...)\<close> reads \<open>self.ctx['name']\<close> whether or not the
  key is there; the entries of the dictionary display are evaluated in order.
\<close>

definition make_BindingsStage :: "collaborators \<Rightarrow> ctx \<Rightarrow> error + ctx" where
  "make_BindingsStage env c =
     bind (getitem c ''bindings'') (\<lambda>bindings.
     bind (contains bindings ''python'') (\<lambda>found.
     if found then
       bind (getitem c ''backend'') (\<lambda>backend.
       bind (getitem c ''options'') (\<lambda>options.
       bind (as_dict env options) (\<lambda>go0.
       bind (getitem c ''name'') (\<lambda>nm.
       bind (setitem go0 ''pyext_module_name''
               (ctx_get c ''pyext_module_name'' (PStr (''_'' @ format_value env nm)))) (\<lambda>go1.
       bind (getitem c ''pyext_file_path'') (\<lambda>path.
       bind (setitem go1 ''pyext_file_path'' path) (\<lambda>generator_options.
       let c1 = c(''generator_options'' \<mapsto> generator_options) in
       bind (GENERATOR_CLASS env backend generator_options) (\<lambda>generator.
       bind (dict_get (ctx_get c1 ''bindings_src'' (PDict [])) ''bindings.cpp'' (PStr [])) (\<lambda>cpp.
       bind (getitem c1 ''name'') (\<lambda>nm'.
       bind (getitem c1 ''id'') (\<lambda>sid.
       bind (getitem c1 ''iir'') (\<lambda>iir.
       bind (generator_call env generator sid iir) (\<lambda>text.
       let bindings_src =
             AList.update ''python''
               (PDict (AList.update (format_value env nm' @ ''.py'') text
                         (AList.update ''bindings.cpp'' cpp []))) []
       in Inr (c1(''bindings_src'' \<mapsto> PDict bindings_src)))))))))))))))
     else Inr c))"

text \<open>\<open>make\<close> runs the stage's \<open>_make\<close>; the stage object keeps the same context.\<close>

fun make :: "collaborators \<Rightarrow> stage \<Rightarrow> ctx \<Rightarrow> error + ctx" where
  "make env BeginStage c = make_BeginStage env c"
| "make env IRStage c = make_IRStage env c"
| "make env IIRStage c = make_IIRStage env c"
| "make env SourceStage c = make_SourceStage env c"
| "make env BindingsStage c = make_BindingsStage env c"

text \<open>\<open>next_stage\<close> returns a stage class; \<open>BindingsStage.next_stage\<close> returns \<open>None\<close>.\<close>

fun next_stage :: "stage \<Rightarrow> stage option" where
  "next_stage BeginStage = Some IRStage"
| "next_stage IRStage = Some IIRStage"
| "next_stage IIRStage = Some SourceStage"
| "next_stage SourceStage = Some BindingsStage"
| "next_stage BindingsStage = None"

text \<open>
  \<open>is_final\<close>: \<open>False\<close> in the base class, overridden by \<open>SourceStage\<close> (lines 230-233)
  and \<open>BindingsStage\<close> (line 260). In \<open>a and b\<close> the second operand is read only when
  the first is truthy.
\<close>

fun is_final :: "collaborators \<Rightarrow> stage \<Rightarrow> ctx \<Rightarrow> error + bool" where
  "is_final env SourceStage c =
     bind (getitem c ''backend'') (\<lambda>backend.
     bind (BINDINGS_LANGUAGES env backend) (\<lambda>langs.
     if truthy langs \<and> truthy (ctx_get c ''bindings'' PNone) then Inr False else Inr True))"
| "is_final env BindingsStage c = Inr True"
| "is_final env s c = Inr False"

text \<open>
  \<open>make_next\<close> (lines 94-97): \<open>None\<close> from a final stage, otherwise the next stage, made, on
  the same context. Calling the \<open>None\<close> that \<open>BindingsStage.next_stage\<close> returns would
  raise.
\<close>

definition make_next :: "collaborators \<Rightarrow> stage \<Rightarrow> ctx \<Rightarrow> error + (stage \<times> ctx) option" where
  "make_next env s c =
     bind (is_final env s c) (\<lambda>final.
     if final then Inr None
     else (case next_stage s of
             None \<Rightarrow> Inl (TypeError ''NoneType object is not callable'')
           | Some s' \<Rightarrow> bind (make env s' c) (\<lambda>c'. Inr (Some (s', c')))))"

text \<open>
  Calling \<open>make_next\<close> repeatedly, at most \<open>n\<close> times, from a stage: the run ends when
  \<open>make_next\<close> returns \<open>None\<close> (\<open>Finished\<close>, with the stages visited and the final
  context) or raises (\<open>Aborted\<close>); \<open>Unfinished\<close> when the \<open>n\<close> calls did not end it.
\<close>

datatype outcome =
    Finished "stage list" ctx
  | Aborted "stage list" error
  | Unfinished "stage list"

fun drive :: "collaborators \<Rightarrow> nat \<Rightarrow> stage \<Rightarrow> ctx \<Rightarrow> stage list \<Rightarrow> outcome" where
  "drive env 0 s c visited = Unfinished visited"
| "drive env (Suc n) s c visited =
     (case make_next env s c of
        Inl e \<Rightarrow> Aborted visited e
      | Inr None \<Rightarrow> Finished visited c
      | Inr (Some (s', c')) \<Rightarrow> drive env n s' c' (visited @ [s']))"

text \<open>The keys a stage's \<open>_make\<close> assigns to.\<close>

fun written_keys :: "stage \<Rightarrow> string set" where
  "written_keys BeginStage = {}"
| "written_keys IRStage = {''options_id'', ''id'', ''ir''}"
| "written_keys IIRStage = {''iir''}"
| "written_keys SourceStage = {''generator_options'', ''src'', ''bindings_src''}"
| "written_keys BindingsStage = {''generator_options'', ''bindings_src''}"

text \<open>
  \<open>bindings\<close> were requested: the context has a truthy entry under \<open>bindings\<close>.
\<close>

definition bindings_requested :: "ctx \<Rightarrow> bool" where
  "bindings_requested c = (case c ''bindings'' of None \<Rightarrow> False | Some v \<Rightarrow> truthy v)"

text \<open>
  The keys the constructor sets: they say which stencil is built and with which options.
\<close>

definition identity_keys :: "string set" where
  "identity_keys =
     {''definition'', ''module'', ''name'', ''qualified_name'', ''externals'', ''build_info'',
      ''options''}"

text \<open>
  Collaborators for the examples. The backend \<open>PObj 11\<close> has the bindings language
  \<open>python\<close>, every other backend has none; the native generator returns a computation
  source and a \<open>bindings.cpp\<close>.
\<close>

definition demo_env :: collaborators where
  "demo_env =
     \<lparr>definition_module = (\<lambda>d. PStr ''stencils''),
      definition_name = (\<lambda>d. Inr (PStr ''copy'')),
      py_str = (\<lambda>v. ''object''),
      BuildOptions = (\<lambda>n m b. Inr (PObj 1)),
      get_options_id = (\<lambda>b opts. Inr (PStr ''opt0'')),
      get_stencil_id = (\<lambda>f q d e opts. Inr (PStr ''id0'')),
      generate = (\<lambda>f d e opts. Inr (PObj 2)),
      check_options = (\<lambda>b opts. Inr ()),
      transform = (\<lambda>ir opts. Inr (PObj 3)),
      BINDINGS_LANGUAGES = (\<lambda>b. Inr (if b = PObj 11 then PList [PStr ''python''] else PList [])),
      SRC_EXTENSION = (\<lambda>b. Inr (PStr ''cpp'')),
      CPU_ARCHITECTURE = (\<lambda>b. Inr (PStr ''x86'')),
      get_pyext_class_name = (\<lambda>b i. Inr (PStr ''cls'')),
      get_pyext_module_name = (\<lambda>b i. Inr (PStr ''_copy'')),
      PYEXT_GENERATOR_CLASS = (\<lambda>b c m a opts. Inr (PObj 4)),
      pyext_generator_call = (\<lambda>g i.
        Inr (PDict [(''computation.src'', PStr ''kernel''), (''bindings.cpp'', PStr ''glue'')])),
      as_dict = (\<lambda>opts. Inr (PDict [])),
      GENERATOR_CLASS = (\<lambda>b opts. Inr (PObj 5)),
      generator_call = (\<lambda>g i r. Inr (PStr ''module''))\<rparr>"

text \<open>The context \<open>BuildContext(definition)\<close> builds from a definition alone.\<close>

definition demo_bare_ctx :: ctx where
  "demo_bare_ctx =
     [''definition'' \<mapsto> PObj 0, ''module'' \<mapsto> PStr ''stencils'', ''name'' \<mapsto> PStr ''copy'',
      ''externals'' \<mapsto> PDict [], ''qualified_name'' \<mapsto> PStr ''stencils.copy'',
      ''build_info'' \<mapsto> PDict [], ''options'' \<mapsto> PObj 1]"

text \<open>The context \<open>BuildContext(definition, name="mine")\<close> builds.\<close>

definition demo_named_ctx :: ctx where
  "demo_named_ctx =
     [''name'' \<mapsto> PStr ''mine'', ''definition'' \<mapsto> PObj 0, ''module'' \<mapsto> PStr ''stencils'',
      ''externals'' \<mapsto> PDict [], ''qualified_name'' \<mapsto> PStr ''stencils.mine'',
      ''build_info'' \<mapsto> PDict [], ''options'' \<mapsto> PObj 1]"

text \<open>
  A context as it reaches \<open>BindingsStage\<close> after \<open>SourceStage._make_lang_src\<close> has moved
  a \<open>bindings.cpp\<close> into \<open>bindings_src\<close>; then the same context after one and after two
  runs of \<open>BindingsStage._make\<close>.
\<close>

definition demo_bindings_ctx :: ctx where
  "demo_bindings_ctx =
     [''name'' \<mapsto> PStr ''copy'', ''backend'' \<mapsto> PObj 11, ''options'' \<mapsto> PObj 1,
      ''bindings'' \<mapsto> PList [PStr ''python''], ''pyext_file_path'' \<mapsto> PStr ''_copy.so'',
      ''id'' \<mapsto> PStr ''id0'', ''iir'' \<mapsto> PObj 3,
      ''src'' \<mapsto> PDict [(''computation.cpp'', PStr ''kernel'')],
      ''bindings_src'' \<mapsto> PDict [(''bindings.cpp'', PStr ''glue'')]]"

definition demo_bindings_once :: ctx where
  "demo_bindings_once =
     demo_bindings_ctx
       (''generator_options'' \<mapsto>
          PDict [(''pyext_module_name'', PStr ''_copy''), (''pyext_file_path'', PStr ''_copy.so'')],
        ''bindings_src'' \<mapsto>
          PDict [(''python'',
                  PDict [(''bindings.cpp'', PStr ''glue''), (''copy.py'', PStr ''module'')])])"

definition demo_bindings_twice :: ctx where
  "demo_bindings_twice =
     demo_bindings_once
       (''generator_options'' \<mapsto>
          PDict [(''pyext_module_name'', PStr ''_copy''), (''pyext_file_path'', PStr ''_copy.so'')],
        ''bindings_src'' \<mapsto>
          PDict [(''python'',
                  PDict [(''bindings.cpp'', PStr []), (''copy.py'', PStr ''module'')])])"

text \<open>
  A context with everything a build through the native backend \<open>PObj 11\<close> with Python
  bindings needs.
\<close>

definition demo_full_ctx :: ctx where
  "demo_full_ctx =
     demo_bare_ctx(''frontend'' \<mapsto> PObj 20, ''backend'' \<mapsto> PObj 11,
       ''bindings'' \<mapsto> PList [PStr ''python''], ''pyext_file_path'' \<mapsto> PStr ''_copy.so'')"

text \<open>A context ready for \<open>IIRStage\<close>, and the same with bindings requested.\<close>

definition demo_iir_ctx :: ctx where
  "demo_iir_ctx = [''backend'' \<mapsto> PObj 11, ''options'' \<mapsto> PObj 1, ''ir'' \<mapsto> PObj 2]"

definition demo_source_ctx :: ctx where
  "demo_source_ctx =
     [''backend'' \<mapsto> PObj 11, ''options'' \<mapsto> PObj 1, ''bindings'' \<mapsto> PList [PStr ''python'']]"

definition demo_no_python_ctx :: ctx where
  "demo_no_python_ctx =
     [''backend'' \<mapsto> PObj 11, ''options'' \<mapsto> PObj 1, ''bindings'' \<mapsto> PList [PStr ''cuda'']]"

section \<open>Properties of the builder reference\<close>

text \<open>
  C9. A generator constructed without a builder, and not given one by a later call, fails
  loudly: the property \<open>builder\<close> raises \<open>RuntimeError\<close>, and so does every generation
  method that reads the builder; nothing is returned. This holds right after
  \<open>__init__\<close> and after any call that passes no builder.
\<close>

theorem builder_unbound_raises:
  fixes self :: "('bnd, 'dt) BaseModuleGenerator"
  assumes "private_builder self = None"
  shows "builder self = Inl (RuntimeError ''Builder attribute not initialized!'')
    \<and> builder (call_bind self ad None) = Inl (RuntimeError ''Builder attribute not initialized!'')
    \<and> generate_class_name self = Inl (RuntimeError ''Builder attribute not initialized!'')
    \<and> generate_backend_name self = Inl (RuntimeError ''Builder attribute not initialized!'')
    \<and> generate_docstring self = Inl (RuntimeError ''Builder attribute not initialized!'')
    \<and> builder (BaseModuleGenerator_init None tmpl :: ('bnd, 'dt) BaseModuleGenerator)
           = Inl (RuntimeError ''Builder attribute not initialized!'')"
  using assms
  by (simp add: builder_def call_bind_def generate_class_name_def generate_backend_name_def
      backend_name_def generate_docstring_def bind_def BaseModuleGenerator_init_def)

theorem builder_unbound_raises_witness:
  "private_builder (BaseModuleGenerator_init None ''t'' :: (unit, unit) BaseModuleGenerator) = None
   \<and> builder (BaseModuleGenerator_init None ''t'' :: (unit, unit) BaseModuleGenerator)
       = Inl (RuntimeError ''Builder attribute not initialized!'')
   \<and> builder (call_bind (BaseModuleGenerator_init None ''t'' :: (unit, unit) BaseModuleGenerator)
        ModuleData_init None) = Inl (RuntimeError ''Builder attribute not initialized!'')"
proof -
  have h: "private_builder (BaseModuleGenerator_init None ''t'' :: (unit, unit) BaseModuleGenerator) = None"
    by (simp add: BaseModuleGenerator_init_def)
  show ?thesis
    using h builder_unbound_raises[OF h, of ModuleData_init]
    by simp
qed

section \<open>Properties of make_args_data_from_iir\<close>

lemma bind_Inr_iff: "bind m f = Inr y \<longleftrightarrow> (\<exists>x. m = Inr x \<and> f x = Inr y)"
  by (cases m) (simp_all add: bind_def)

lemma fold_add_out_field:
  "f \<in> fold add_out_field accs out \<longleftrightarrow>
     f \<in> out \<or> (\<exists>acc \<in> set accs. case acc of FieldAccessor s i e \<Rightarrow> s = f \<and> i = INTENT_READ_WRITE | ParameterAccessor s \<Rightarrow> False)"
  by (induction accs arbitrary: out) (auto simp: add_out_field_def split: Accessor.splits)

lemma fold_stages:
  "f \<in> fold (\<lambda>st. fold add_out_field (accessors st)) sts out \<longleftrightarrow>
     f \<in> out \<or> (\<exists>st \<in> set sts. \<exists>acc \<in> set (accessors st). case acc of FieldAccessor s i e \<Rightarrow> s = f \<and> i = INTENT_READ_WRITE | ParameterAccessor s \<Rightarrow> False)"
  by (induction sts arbitrary: out) (auto simp: fold_add_out_field)

lemma fold_groups:
  "f \<in> fold (\<lambda>sg. fold (\<lambda>st. fold add_out_field (accessors st)) (stages sg)) sgs out \<longleftrightarrow>
     f \<in> out \<or> (\<exists>sg \<in> set sgs. \<exists>st \<in> set (stages sg). \<exists>acc \<in> set (accessors st). case acc of FieldAccessor s i e \<Rightarrow> s = f \<and> i = INTENT_READ_WRITE | ParameterAccessor s \<Rightarrow> False)"
  by (induction sgs arbitrary: out) (auto simp: fold_stages)

lemma fold_multi_stages:
  "f \<in> fold (\<lambda>ms. fold (\<lambda>sg. fold (\<lambda>st. fold add_out_field (accessors st)) (stages sg)) (groups ms)) mss out \<longleftrightarrow>
     f \<in> out \<or> (\<exists>ms \<in> set mss. \<exists>sg \<in> set (groups ms). \<exists>st \<in> set (stages sg). \<exists>acc \<in> set (accessors st). case acc of FieldAccessor s i e \<Rightarrow> s = f \<and> i = INTENT_READ_WRITE | ParameterAccessor s \<Rightarrow> False)"
  by (induction mss arbitrary: out) (auto simp: fold_groups)

lemma out_fields_iff: "f \<in> out_fields iir \<longleftrightarrow> has_write_access iir f"
  by (simp add: out_fields_def has_write_access_def fold_multi_stages)

lemma for_loop_preserves:
  assumes "\<And>x s s'. body x s = Inr s' \<Longrightarrow> P s \<Longrightarrow> P s'"
    and "for_loop xs body s = Inr s'" and "P s"
  shows "P s'"
  using assms(2,3)
proof (induction xs arbitrary: s)
  case Nil
  then show ?case by simp
next
  case (Cons x xs)
  from Cons.prems(1) obtain s1 where s1: "body x s = Inr s1" "for_loop xs body s1 = Inr s'"
    by (auto simp: bind_Inr_iff)
  from assms(1)[OF s1(1) Cons.prems(2)] have "P s1" .
  with Cons.IH[OF s1(2)] show ?case .
qed

lemma for_loop_establishes:
  assumes pres: "\<And>x s s'. body x s = Inr s' \<Longrightarrow> P s \<Longrightarrow> P s'"
    and est: "\<And>s s'. body a s = Inr s' \<Longrightarrow> P s'"
    and run: "for_loop xs body s = Inr s'" and mem: "a \<in> set xs"
  shows "P s'"
  using run mem
proof (induction xs arbitrary: s)
  case Nil
  then show ?case by simp
next
  case (Cons x xs)
  from Cons.prems(1) obtain s1 where s1: "body x s = Inr s1" "for_loop xs body s1 = Inr s'"
    by (auto simp: bind_Inr_iff)
  show ?case
  proof (cases "a = x")
    case True
    with est s1(1) have "P s1" by simp
    show ?thesis
      by (rule for_loop_preserves[where P = P and body = body, OF _ s1(2) \<open>P s1\<close>])
         (rule pres)
  next
    case False
    with Cons.prems(2) have "a \<in> set xs" by simp
    with Cons.IH[OF s1(2)] show ?thesis .
  qed
qed

lemma process_arg_field_info:
  assumes "process_arg tb iir outs arg d = Inr d'"
  shows "field_info d' =
     (if name arg \<in> dom (iir_fields iir) then
        AList.update (name arg)
          (if name arg \<in> iir_unreferenced iir then None
           else map_option (\<lambda>ext. \<lparr>access = (if name arg \<in> outs then READ_WRITE else READ_ONLY),
                  boundary = tb ext, axes = decl_axes (the (iir_fields iir (name arg))),
                  dtype = decl_dtype (the (iir_fields iir (name arg)))\<rparr>) (fields_extents iir (name arg)))
          (field_info d)
      else field_info d)"
    and "parameter_info d' =
     (if name arg \<in> dom (iir_fields iir) then parameter_info d
      else AList.update (name arg)
          (if name arg \<in> iir_unreferenced iir then None
           else map_option (\<lambda>p. \<lparr>param_dtype = var_dtype p\<rparr>) (parameters iir (name arg)))
          (parameter_info d))"
    and "name arg \<in> dom (iir_fields iir) \<Longrightarrow> name arg \<notin> iir_unreferenced iir \<Longrightarrow>
          fields_extents iir (name arg) \<noteq> None"
  using assms
  by (auto simp: process_arg_def Let_def split: if_splits option.splits)

lemma absent_field_entry:
  assumes run: "for_loop args (process_arg tb iir outs) d = Inr d'"
    and mem: "arg \<in> set args"
    and fld: "name arg \<in> dom (iir_fields iir)"
    and unref: "name arg \<in> iir_unreferenced iir"
  shows "map_of (field_info d') (name arg) = Some None"
proof (rule for_loop_establishes[where P = "\<lambda>s. map_of (field_info s) (name arg) = Some None",
      OF _ _ run mem])
  fix x s s'
  assume "process_arg tb iir outs x s = Inr s'" and "map_of (field_info s) (name arg) = Some None"
  then show "map_of (field_info s') (name arg) = Some None"
    using unref by (auto simp: process_arg_field_info(1) update_conv')
next
  fix s s'
  assume "process_arg tb iir outs arg s = Inr s'"
  then show "map_of (field_info s') (name arg) = Some None"
    using unref fld by (simp add: process_arg_field_info(1) update_conv')
qed

lemma absent_parameter_entry:
  assumes run: "for_loop args (process_arg tb iir outs) d = Inr d'"
    and mem: "arg \<in> set args"
    and fld: "name arg \<notin> dom (iir_fields iir)"
    and unref: "name arg \<in> iir_unreferenced iir"
  shows "map_of (parameter_info d') (name arg) = Some None"
proof (rule for_loop_establishes[where P = "\<lambda>s. map_of (parameter_info s) (name arg) = Some None",
      OF _ _ run mem])
  fix x s s'
  assume "process_arg tb iir outs x s = Inr s'" and "map_of (parameter_info s) (name arg) = Some None"
  then show "map_of (parameter_info s') (name arg) = Some None"
    using unref by (auto simp: process_arg_field_info(2) update_conv')
next
  fix s s'
  assume "process_arg tb iir outs arg s = Inr s'"
  then show "map_of (parameter_info s') (name arg) = Some None"
    using unref fld by (simp add: process_arg_field_info(2) update_conv')
qed

lemma referenced_field_entry:
  assumes run: "for_loop args (process_arg tb iir outs) d = Inr d'"
    and mem: "arg \<in> set args"
    and fld: "name arg \<in> dom (iir_fields iir)"
    and ref: "name arg \<notin> iir_unreferenced iir"
  shows "\<exists>fi. map_of (field_info d') (name arg) = Some (Some fi)
            \<and> access fi = (if name arg \<in> outs then READ_WRITE else READ_ONLY)"
proof -
  define k where "k = (if name arg \<in> outs then READ_WRITE else READ_ONLY)"
  have "\<exists>fi. map_of (field_info d') (name arg) = Some (Some fi) \<and> access fi = k"
  proof (rule for_loop_establishes[where
        P = "\<lambda>s. \<exists>fi. map_of (field_info s) (name arg) = Some (Some fi) \<and> access fi = k",
        OF _ _ run mem])
    fix x s s'
    assume a: "process_arg tb iir outs x s = Inr s'"
      and b: "\<exists>fi. map_of (field_info s) (name arg) = Some (Some fi) \<and> access fi = k"
    show "\<exists>fi. map_of (field_info s') (name arg) = Some (Some fi) \<and> access fi = k"
    proof (cases "name x = name arg")
      case True
      with process_arg_field_info(3)[OF a] fld ref
      obtain e where "fields_extents iir (name arg) = Some e"
        by auto
      with True fld ref show ?thesis
        by (simp add: process_arg_field_info(1)[OF a] update_conv' k_def)
    next
      case False
      with b show ?thesis
        by (simp add: process_arg_field_info(1)[OF a] update_conv')
    qed
  next
    fix s s'
    assume a: "process_arg tb iir outs arg s = Inr s'"
    with process_arg_field_info(3)[OF a] fld ref
    obtain e where "fields_extents iir (name arg) = Some e"
      by auto
    with fld ref show "\<exists>fi. map_of (field_info s') (name arg) = Some (Some fi) \<and> access fi = k"
      by (simp add: process_arg_field_info(1)[OF a] update_conv' k_def)
  qed
  then show ?thesis by (simp only: k_def)
qed

lemma remdups_snoc:
  "remdups (ys @ [x]) = filter (\<lambda>y. y \<noteq> x) (remdups ys) @ [x]"
  by (induction ys) auto

lemma first_occurrences_Cons:
  "first_occurrences (x # xs) = x # filter (\<lambda>y. y \<noteq> x) (first_occurrences xs)"
proof -
  have "remdups (rev xs @ [x]) = filter (\<lambda>y. y \<noteq> x) (remdups (rev xs)) @ [x]"
    by (rule remdups_snoc)
  then show ?thesis
    by (simp add: first_occurrences_def rev_filter)
qed

lemma first_occurrences_Nil: "first_occurrences [] = []"
  by (simp add: first_occurrences_def)

lemma fold_new_keys:
  "fold (\<lambda>n ks. if n \<in> set ks then ks else ks @ [n]) xs ks
     = ks @ filter (\<lambda>x. x \<notin> set ks) (first_occurrences xs)"
proof (induction xs arbitrary: ks)
  case Nil
  then show ?case by (simp add: first_occurrences_Nil)
next
  case (Cons x xs)
  show ?case
  proof (cases "x \<in> set ks")
    case True
    then have "filter (\<lambda>y. y \<notin> set ks) (filter (\<lambda>y. y \<noteq> x) (first_occurrences xs))
        = filter (\<lambda>y. y \<notin> set ks) (first_occurrences xs)"
      by (auto intro: filter_cong)
    with True Cons.IH[of ks] show ?thesis
      by (simp add: first_occurrences_Cons)
  next
    case False
    have "filter (\<lambda>y. y \<notin> set (ks @ [x])) (first_occurrences xs)
        = filter (\<lambda>y. y \<notin> set ks) (filter (\<lambda>y. y \<noteq> x) (first_occurrences xs))"
      by (auto intro: filter_cong)
    with False Cons.IH[of "ks @ [x]"] show ?thesis
      by (simp add: first_occurrences_Cons)
  qed
qed

lemma for_loop_keys:
  assumes "for_loop args (process_arg tb iir outs) d = Inr d'"
  shows "map fst (field_info d') =
           fold (\<lambda>n ks. if n \<in> set ks then ks else ks @ [n])
             (filter (\<lambda>n. n \<in> dom (iir_fields iir)) (map name args)) (map fst (field_info d))
       \<and> map fst (parameter_info d') =
           fold (\<lambda>n ks. if n \<in> set ks then ks else ks @ [n])
             (filter (\<lambda>n. n \<notin> dom (iir_fields iir)) (map name args)) (map fst (parameter_info d))"
  using assms
proof (induction args arbitrary: d)
  case Nil
  then show ?case by simp
next
  case (Cons a args)
  from Cons.prems obtain d1 where d1: "process_arg tb iir outs a d = Inr d1"
      "for_loop args (process_arg tb iir outs) d1 = Inr d'"
    by (auto simp: bind_Inr_iff)
  show ?case
    using Cons.IH[OF d1(2)]
    by (simp add: process_arg_field_info(1,2)[OF d1(1)] update_keys)
qed

lemma make_args_keys:
  assumes "make_args_data_from_iir tb iir = Inr data"
  shows "map fst (field_info data) =
           first_occurrences (filter (\<lambda>n. n \<in> dom (iir_fields iir)) (map name (api_signature iir)))"
    and "map fst (parameter_info data) =
           first_occurrences (filter (\<lambda>n. n \<notin> dom (iir_fields iir)) (map name (api_signature iir)))"
  using assms for_loop_keys[of "api_signature iir" tb iir "out_fields iir" ModuleData_init]
  by (auto simp: make_args_data_from_iir_def bind_Inr_iff fold_new_keys ModuleData_init_def)

lemma first_occurrences_distinct: "distinct xs \<Longrightarrow> first_occurrences xs = xs"
  by (simp add: first_occurrences_def distinct_remdups_id)

lemma demo_iir_result: "make_args_data_from_iir (\<lambda>e. e) demo_iir = Inr demo_data"
  by (simp add: make_args_data_from_iir_def demo_iir_def demo_data_def process_arg_def
      out_fields_def add_out_field_def bind_def ModuleData_init_def)

lemma demo_iir_writes:
  "has_write_access demo_iir ''a'' \<and> \<not> has_write_access demo_iir ''b''
     \<and> \<not> has_write_access demo_iir ''c''"
  by (simp add: has_write_access_def demo_iir_def)

text \<open>
  C3, as stated, fails on a declared field argument that is listed as unreferenced: field
  \<open>b\<close> of the example has no write access, yet its entry is the absent marker \<open>None\<close>
  and carries no access kind at all (line 61), neither \<open>READ_ONLY\<close> nor \<open>READ_WRITE\<close>.
\<close>

theorem access_kind_unreferenced_counterexample:
  "make_args_data_from_iir (\<lambda>e. e) demo_iir = Inr demo_data
   \<and> ''b'' \<in> name ` set (api_signature demo_iir)
   \<and> ''b'' \<in> dom (iir_fields demo_iir)
   \<and> \<not> has_write_access demo_iir ''b''
   \<and> map_of (field_info demo_data) ''b'' = Some None
   \<and> \<not> (\<exists>fi. map_of (field_info demo_data) ''b'' = Some (Some fi) \<and> access fi = READ_ONLY)"
  using demo_iir_result demo_iir_writes
  by (simp add: demo_iir_def demo_data_def)

text \<open>
  C3, amended. Whenever \<open>make_args_data_from_iir\<close> returns, every declared field
  argument that is not listed as unreferenced has a \<open>FieldInfo\<close> entry whose access kind
  is \<open>READ_WRITE\<close> exactly when some field accessor of that field with intent
  \<open>READ_WRITE\<close> occurs in some stage of the program, and \<open>READ_ONLY\<close> otherwise; read
  accessors play no role.
\<close>

theorem access_kind_of_referenced_field:
  assumes "make_args_data_from_iir to_boundary implementation_ir = Inr data"
    and "arg \<in> set (api_signature implementation_ir)"
    and "name arg \<in> dom (iir_fields implementation_ir)"
    and "name arg \<notin> iir_unreferenced implementation_ir"
  shows "\<exists>fi. map_of (field_info data) (name arg) = Some (Some fi)
           \<and> (access fi = READ_WRITE \<longleftrightarrow> has_write_access implementation_ir (name arg))
           \<and> (access fi = READ_ONLY \<longleftrightarrow> \<not> has_write_access implementation_ir (name arg))"
proof -
  from assms(1) obtain d where
    run: "for_loop (api_signature implementation_ir)
            (process_arg to_boundary implementation_ir (out_fields implementation_ir))
            ModuleData_init = Inr d"
    and data: "data = d\<lparr>unreferenced := iir_unreferenced implementation_ir\<rparr>"
    by (auto simp: make_args_data_from_iir_def bind_Inr_iff)
  from referenced_field_entry[OF run assms(2,3,4)] obtain fi where
    fi: "map_of (field_info d) (name arg) = Some (Some fi)"
      "access fi = (if name arg \<in> out_fields implementation_ir then READ_WRITE else READ_ONLY)"
    by blast
  from fi(1) data have "map_of (field_info data) (name arg) = Some (Some fi)"
    by simp
  moreover from fi(2) have "access fi = READ_WRITE \<longleftrightarrow> has_write_access implementation_ir (name arg)"
    by (simp add: out_fields_iff)
  moreover from fi(2) have "access fi = READ_ONLY \<longleftrightarrow> \<not> has_write_access implementation_ir (name arg)"
    by (simp add: out_fields_iff)
  ultimately show ?thesis by blast
qed

theorem access_kind_of_referenced_field_witness:
  "make_args_data_from_iir (\<lambda>e. e) demo_iir = Inr demo_data
   \<and> \<lparr>name = ''a'', is_keyword = False\<rparr> \<in> set (api_signature demo_iir)
   \<and> ''a'' \<in> dom (iir_fields demo_iir)
   \<and> ''a'' \<notin> iir_unreferenced demo_iir
   \<and> has_write_access demo_iir ''a''
   \<and> (\<exists>fi. map_of (field_info demo_data) ''a'' = Some (Some fi) \<and> access fi = READ_WRITE)"
proof -
  have h2: "\<lparr>name = ''a'', is_keyword = False\<rparr> \<in> set (api_signature demo_iir)"
    by (simp add: demo_iir_def)
  have h3: "name \<lparr>name = ''a'', is_keyword = False\<rparr> \<in> dom (iir_fields demo_iir)"
    by (simp add: demo_iir_def)
  have h4: "name \<lparr>name = ''a'', is_keyword = False\<rparr> \<notin> iir_unreferenced demo_iir"
    by (simp add: demo_iir_def)
  from access_kind_of_referenced_field[OF demo_iir_result h2 h3 h4] demo_iir_writes
  have "\<exists>fi. map_of (field_info demo_data) ''a'' = Some (Some fi) \<and> access fi = READ_WRITE"
    by auto
  with demo_iir_result h2 h3 h4 demo_iir_writes show ?thesis
    by simp
qed

text \<open>
  C4. Whenever \<open>make_args_data_from_iir\<close> returns, every argument of \<open>api_signature\<close>
  that is listed as unreferenced has the entry \<open>None\<close> under its name, in \<open>field_info\<close>
  when it is a declared field and in \<open>parameter_info\<close> otherwise; and the keys of
  \<open>field_info\<close> (of \<open>parameter_info\<close>) are exactly the names of the field (non-field)
  arguments in \<open>api_signature\<close> order, each at its first occurrence, so an absent entry
  shifts no later argument. For a signature without repeated names the keys are the
  filtered signature itself.
\<close>

theorem unreferenced_marked_absent_in_order:
  assumes "make_args_data_from_iir to_boundary implementation_ir = Inr data"
  shows "(\<forall>arg \<in> set (api_signature implementation_ir).
            name arg \<in> iir_unreferenced implementation_ir \<longrightarrow>
              (if name arg \<in> dom (iir_fields implementation_ir)
               then map_of (field_info data) (name arg) = Some None
               else map_of (parameter_info data) (name arg) = Some None))
       \<and> map fst (field_info data) =
           first_occurrences (filter (\<lambda>n. n \<in> dom (iir_fields implementation_ir))
             (map name (api_signature implementation_ir)))
       \<and> map fst (parameter_info data) =
           first_occurrences (filter (\<lambda>n. n \<notin> dom (iir_fields implementation_ir))
             (map name (api_signature implementation_ir)))
       \<and> (distinct (map name (api_signature implementation_ir)) \<longrightarrow>
            map fst (field_info data) =
              filter (\<lambda>n. n \<in> dom (iir_fields implementation_ir))
                (map name (api_signature implementation_ir))
          \<and> map fst (parameter_info data) =
              filter (\<lambda>n. n \<notin> dom (iir_fields implementation_ir))
                (map name (api_signature implementation_ir)))"
proof -
  from assms obtain d where
    run: "for_loop (api_signature implementation_ir)
            (process_arg to_boundary implementation_ir (out_fields implementation_ir))
            ModuleData_init = Inr d"
    and data: "data = d\<lparr>unreferenced := iir_unreferenced implementation_ir\<rparr>"
    by (auto simp: make_args_data_from_iir_def bind_Inr_iff)
  have absent: "\<forall>arg \<in> set (api_signature implementation_ir).
            name arg \<in> iir_unreferenced implementation_ir \<longrightarrow>
              (if name arg \<in> dom (iir_fields implementation_ir)
               then map_of (field_info data) (name arg) = Some None
               else map_of (parameter_info data) (name arg) = Some None)"
  proof (intro ballI impI)
    fix arg
    assume mem: "arg \<in> set (api_signature implementation_ir)"
      and unref: "name arg \<in> iir_unreferenced implementation_ir"
    show "if name arg \<in> dom (iir_fields implementation_ir)
          then map_of (field_info data) (name arg) = Some None
          else map_of (parameter_info data) (name arg) = Some None"
    proof (cases "name arg \<in> dom (iir_fields implementation_ir)")
      case True
      with absent_field_entry[OF run mem True unref] data show ?thesis by simp
    next
      case False
      with absent_parameter_entry[OF run mem False unref] data show ?thesis by simp
    qed
  qed
  note keys = make_args_keys[OF assms]
  have "distinct (map name (api_signature implementation_ir)) \<longrightarrow>
            map fst (field_info data) =
              filter (\<lambda>n. n \<in> dom (iir_fields implementation_ir))
                (map name (api_signature implementation_ir))
          \<and> map fst (parameter_info data) =
              filter (\<lambda>n. n \<notin> dom (iir_fields implementation_ir))
                (map name (api_signature implementation_ir))"
    by (simp add: keys first_occurrences_distinct)
  with absent keys show ?thesis by blast
qed

theorem unreferenced_marked_absent_in_order_witness:
  "make_args_data_from_iir (\<lambda>e. e) demo_iir = Inr demo_data
   \<and> map_of (field_info demo_data) ''b'' = Some None
   \<and> map_of (parameter_info demo_data) ''p'' = Some None
   \<and> map fst (field_info demo_data) = [''a'', ''b'', ''c'']
   \<and> map fst (parameter_info demo_data) = [''p'']"
proof -
  note res = unreferenced_marked_absent_in_order[OF demo_iir_result]
  have b: "\<lparr>name = ''b'', is_keyword = False\<rparr> \<in> set (api_signature demo_iir)"
    and p: "\<lparr>name = ''p'', is_keyword = False\<rparr> \<in> set (api_signature demo_iir)"
    by (simp_all add: demo_iir_def)
  from res b have "map_of (field_info demo_data) ''b'' = Some None"
    by (simp add: demo_data_def)
  moreover from res p have "map_of (parameter_info demo_data) ''p'' = Some None"
    by (simp add: demo_data_def)
  moreover have "map fst (field_info demo_data) = [''a'', ''b'', ''c'']"
    and "map fst (parameter_info demo_data) = [''p'']"
    by (simp_all add: demo_data_def)
  ultimately show ?thesis
    using demo_iir_result by simp
qed


section \<open>Properties of the access collector and the boundary resolver\<close>

lemma access_collector_testee_result:
  "reads (AccessCollector_apply access_collector_testee) =
     [''tmp'' \<mapsto> {(0, 0, 0), (0, 1, 0)}, ''foo'' \<mapsto> {(1, 0, 0)}, ''mask'' \<mapsto> {(- 1, - 1, 1)}]
   \<and> writes (AccessCollector_apply access_collector_testee) =
     [''tmp'' \<mapsto> {(0, 0, 0)}, ''bar'' \<mapsto> {(0, 0, 0)}, ''baz'' \<mapsto> {(0, 0, 0)}]"
  by (auto simp: AccessCollector_apply_def access_collector_testee_def
      visit_horizontal_execution_def add_access_def fun_eq_iff)

lemma fold_extend_margin:
  "fold (\<lambda>off m. extend_margin m off) offs m =
     (if offs = [] then m
      else (max (fst m) (- Min (set offs)), max (snd m) (Max (set offs))))"
proof (induction offs arbitrary: m)
  case Nil
  then show ?case by simp
next
  case (Cons x xs)
  show ?case
  proof (cases "xs = []")
    case True
    then show ?thesis by (simp add: extend_margin_def)
  next
    case False
    then have "Min (insert x (set xs)) = min x (Min (set xs))"
      and "Max (insert x (set xs)) = max x (Max (set xs))"
      by simp_all
    with False Cons.IH[of "extend_margin m x"] show ?thesis
      by (simp add: extend_margin_def minus_min_eq_max max.assoc
          del: minus_Min_eq_Max minus_Max_eq_Min)
  qed
qed

lemma record_offset_apply:
  "record_offset a metas f =
     (if fst a = f
      then Some (extend_boundary (snd a) (case metas f of None \<Rightarrow> zero_boundary | Some b \<Rightarrow> b))
      else metas f)"
  by (auto simp: record_offset_def)

lemma fold_record_offset:
  "fold record_offset accs metas f =
     (if filter (\<lambda>a. fst a = f) accs = [] then metas f
      else Some (fold extend_boundary (map snd (filter (\<lambda>a. fst a = f) accs))
                   (case metas f of None \<Rightarrow> zero_boundary | Some b \<Rightarrow> b)))"
proof (induction accs arbitrary: metas)
  case Nil
  then show ?case by simp
next
  case (Cons a accs)
  define g where "g = record_offset a metas"
  have gf: "g f = (if fst a = f
      then Some (extend_boundary (snd a) (case metas f of None \<Rightarrow> zero_boundary | Some b \<Rightarrow> b))
      else metas f)"
    by (simp add: g_def record_offset_apply)
  have "fold record_offset (a # accs) metas f = fold record_offset accs g f"
    by (simp add: g_def)
  also have "\<dots> = (if filter (\<lambda>a. fst a = f) accs = [] then g f
      else Some (fold extend_boundary (map snd (filter (\<lambda>a. fst a = f) accs))
                   (case g f of None \<Rightarrow> zero_boundary | Some b \<Rightarrow> b)))"
    by (rule Cons.IH)
  also have "\<dots> = (if filter (\<lambda>x. fst x = f) (a # accs) = [] then metas f
      else Some (fold extend_boundary (map snd (filter (\<lambda>x. fst x = f) (a # accs)))
                   (case metas f of None \<Rightarrow> zero_boundary | Some b \<Rightarrow> b)))"
    by (simp add: gf)
  finally show ?case .
qed

lemma fold_extend_boundary:
  "fold extend_boundary offs b =
     FieldBoundary (fold (\<lambda>off m. extend_margin m off) (map off_i offs) (bnd_i b))
       (fold (\<lambda>off m. extend_margin m off) (map off_j offs) (bnd_j b))
       (fold (\<lambda>off m. extend_margin m off) (map off_k offs) (bnd_k b))"
  by (induction offs arbitrary: b) (simp_all add: extend_boundary_def)

lemma FieldsMetadataPass_observed:
  assumes "observed_offsets c f \<noteq> []"
  shows "FieldsMetadataPass c f =
     Some (FieldBoundary
       (max 0 (- Min (off_i ` set (observed_offsets c f))), max 0 (Max (off_i ` set (observed_offsets c f))))
       (max 0 (- Min (off_j ` set (observed_offsets c f))), max 0 (Max (off_j ` set (observed_offsets c f))))
       (max 0 (- Min (off_k ` set (observed_offsets c f))), max 0 (Max (off_k ` set (observed_offsets c f)))))"
proof -
  from assms have ne: "filter (\<lambda>a. fst a = f) (computation_accesses c) \<noteq> []"
    by (simp add: observed_offsets_def)
  then have "FieldsMetadataPass c f = Some (fold extend_boundary (observed_offsets c f) zero_boundary)"
    by (simp add: FieldsMetadataPass_def fold_record_offset observed_offsets_def)
  also have "fold extend_boundary (observed_offsets c f) zero_boundary = FieldBoundary
       (max 0 (- Min (off_i ` set (observed_offsets c f))), max 0 (Max (off_i ` set (observed_offsets c f))))
       (max 0 (- Min (off_j ` set (observed_offsets c f))), max 0 (Max (off_j ` set (observed_offsets c f))))
       (max 0 (- Min (off_k ` set (observed_offsets c f))), max 0 (Max (off_k ` set (observed_offsets c f))))"
    using assms
    by (simp add: fold_extend_boundary fold_extend_margin zero_boundary_def
        del: minus_Min_eq_Max minus_Max_eq_Min)
  finally show ?thesis .
qed

lemma FieldsMetadataPass_unobserved:
  "observed_offsets c f = [] \<Longrightarrow> FieldsMetadataPass c f = None"
  by (simp add: FieldsMetadataPass_def fold_record_offset observed_offsets_def)

lemma copy_shift_metas:
  "FieldsMetadataPass (copy_shift (CartesianOffset (- 1) 2 0)) ''a'' = Some (FieldBoundary (0, 0) (0, 0) (0, 0))"
  "FieldsMetadataPass (copy_shift (CartesianOffset (- 1) 2 0)) ''b'' = Some (FieldBoundary (1, 0) (0, 2) (0, 0))"
  "FieldsMetadataPass (copy_shift (CartesianOffset 1 2 (- 3))) ''a'' = Some (FieldBoundary (0, 0) (0, 0) (0, 0))"
  "FieldsMetadataPass (copy_shift (CartesianOffset 1 2 (- 3))) ''b'' = Some (FieldBoundary (0, 1) (0, 2) (3, 0))"
  by (simp_all add: FieldsMetadataPass_def copy_shift_def computation_accesses_def centered_def
      record_offset_def extend_boundary_def extend_margin_def zero_boundary_def)

text \<open>
  C1. On the program of \<open>test_access_collector\<close> the collector returns exactly the reads
  \<open>tmp: {(0,0,0), (0,1,0)}\<close>, \<open>foo: {(1,0,0)}\<close>, \<open>mask: {(-1,-1,1)}\<close> and the writes
  \<open>tmp: {(0,0,0)}\<close>, \<open>bar: {(0,0,0)}\<close>, \<open>baz: {(0,0,0)}\<close>. The field \<open>mask\<close>, which
  only guards the second block, is among the reads with its offset, and the statement under
  the mask contributes its write of \<open>baz\<close> and its read of \<open>tmp\<close> at \<open>(0,1,0)\<close>: a mask
  never changes the writes of a block and only adds its own read.
\<close>

theorem access_collector_test_case:
  "reads (AccessCollector_apply access_collector_testee) =
     [''tmp'' \<mapsto> {(0, 0, 0), (0, 1, 0)}, ''foo'' \<mapsto> {(1, 0, 0)}, ''mask'' \<mapsto> {(- 1, - 1, 1)}]
   \<and> writes (AccessCollector_apply access_collector_testee) =
     [''tmp'' \<mapsto> {(0, 0, 0)}, ''bar'' \<mapsto> {(0, 0, 0)}, ''baz'' \<mapsto> {(0, 0, 0)}]
   \<and> reads (AccessCollector_apply access_collector_testee) ''mask'' = Some {(- 1, - 1, 1)}
   \<and> accesses (AccessCollector_apply access_collector_testee) ''tmp'' = {(0, 0, 0), (0, 1, 0)}
   \<and> writes (visit_horizontal_execution he res)
       = writes (visit_horizontal_execution (he\<lparr>mask := None\<rparr>) res)"
proof -
  note r = access_collector_testee_result
  have "writes (visit_horizontal_execution he res)
       = writes (visit_horizontal_execution (he\<lparr>mask := None\<rparr>) res)"
    by (simp add: visit_horizontal_execution_def Let_def split: option.splits prod.splits)
  moreover have "accesses (AccessCollector_apply access_collector_testee) ''tmp''
       = {(0, 0, 0), (0, 1, 0)}"
    by (simp add: accesses_def r)
  moreover have "reads (AccessCollector_apply access_collector_testee) ''mask'' = Some {(- 1, - 1, 1)}"
    by (simp add: r)
  ultimately show ?thesis
    using r by simp
qed

text \<open>
  C2. For every computation and every field with at least one recorded access, the
  boundary the pass computes has, on each axis, \<open>margin_before = max(0, -(minimum observed
  offset))\<close> and \<open>margin_after = max(0, maximum observed offset)\<close>. For the copy-with-shift
  computation \<open>a = b[offset]\<close> of \<open>test_copy_shift\<close>, field \<open>a\<close> has all-zero margins, and
  field \<open>b\<close> has \<open>i=(1,0), j=(0,2), k=(0,0)\<close> for the offset \<open>(-1, 2, 0)\<close> and
  \<open>i=(0,1), j=(0,2), k=(3,0)\<close> for the offset \<open>(1, 2, -3)\<close>.
\<close>

theorem field_boundary_margins:
  "(observed_offsets c f \<noteq> [] \<longrightarrow>
      FieldsMetadataPass c f =
        Some (FieldBoundary
          (max 0 (- Min (off_i ` set (observed_offsets c f))),
           max 0 (Max (off_i ` set (observed_offsets c f))))
          (max 0 (- Min (off_j ` set (observed_offsets c f))),
           max 0 (Max (off_j ` set (observed_offsets c f))))
          (max 0 (- Min (off_k ` set (observed_offsets c f))),
           max 0 (Max (off_k ` set (observed_offsets c f))))))
   \<and> FieldsMetadataPass (copy_shift (CartesianOffset (- 1) 2 0)) ''a''
       = Some (FieldBoundary (0, 0) (0, 0) (0, 0))
   \<and> FieldsMetadataPass (copy_shift (CartesianOffset (- 1) 2 0)) ''b''
       = Some (FieldBoundary (1, 0) (0, 2) (0, 0))
   \<and> FieldsMetadataPass (copy_shift (CartesianOffset 1 2 (- 3))) ''a''
       = Some (FieldBoundary (0, 0) (0, 0) (0, 0))
   \<and> FieldsMetadataPass (copy_shift (CartesianOffset 1 2 (- 3))) ''b''
       = Some (FieldBoundary (0, 1) (0, 2) (3, 0))"
  using FieldsMetadataPass_observed[of c f] copy_shift_metas
  by (simp del: minus_Min_eq_Max minus_Max_eq_Min)

theorem field_boundary_margins_witness:
  "observed_offsets (copy_shift (CartesianOffset 1 2 (- 3))) ''b'' = [CartesianOffset 1 2 (- 3)]
   \<and> observed_offsets (copy_shift (CartesianOffset 1 2 (- 3))) ''b'' \<noteq> []
   \<and> FieldsMetadataPass (copy_shift (CartesianOffset 1 2 (- 3))) ''b''
       = Some (FieldBoundary (max 0 (- 1), max 0 1) (max 0 (- 2), max 0 2) (max 0 3, max 0 (- 3)))"
proof -
  have obs: "observed_offsets (copy_shift (CartesianOffset 1 2 (- 3))) ''b''
      = [CartesianOffset 1 2 (- 3)]"
    by (simp add: observed_offsets_def computation_accesses_def copy_shift_def centered_def)
  then have ne: "observed_offsets (copy_shift (CartesianOffset 1 2 (- 3))) ''b'' \<noteq> []"
    by simp
  from field_boundary_margins[of "copy_shift (CartesianOffset 1 2 (- 3))" "''b''"] ne
  have "FieldsMetadataPass (copy_shift (CartesianOffset 1 2 (- 3))) ''b'' =
        Some (FieldBoundary
          (max 0 (- Min (off_i ` set (observed_offsets (copy_shift (CartesianOffset 1 2 (- 3))) ''b''))),
           max 0 (Max (off_i ` set (observed_offsets (copy_shift (CartesianOffset 1 2 (- 3))) ''b''))))
          (max 0 (- Min (off_j ` set (observed_offsets (copy_shift (CartesianOffset 1 2 (- 3))) ''b''))),
           max 0 (Max (off_j ` set (observed_offsets (copy_shift (CartesianOffset 1 2 (- 3))) ''b''))))
          (max 0 (- Min (off_k ` set (observed_offsets (copy_shift (CartesianOffset 1 2 (- 3))) ''b''))),
           max 0 (Max (off_k ` set (observed_offsets (copy_shift (CartesianOffset 1 2 (- 3))) ''b'')))))"
    by blast
  then have "FieldsMetadataPass (copy_shift (CartesianOffset 1 2 (- 3))) ''b''
       = Some (FieldBoundary (max 0 (- 1), max 0 1) (max 0 (- 2), max 0 2) (max 0 3, max 0 (- 3)))"
    by (simp add: obs)
  with obs ne show ?thesis
    by simp
qed

section \<open>Properties of the build stages\<close>

lemma getitem_Inr_iff: "getitem c k = Inr v \<longleftrightarrow> c k = Some v"
  by (simp add: getitem_def split: option.splits)

lemma make_IRStage_shape:
  assumes "make_IRStage env c = Inr c'"
  shows "\<exists>frontend backend options qn dfn ext oid sid ir.
      c ''frontend'' = Some frontend \<and> c ''backend'' = Some backend \<and> c ''options'' = Some options
    \<and> c ''qualified_name'' = Some qn \<and> c ''definition'' = Some dfn \<and> c ''externals'' = Some ext
    \<and> get_options_id env backend options = Inr oid
    \<and> get_stencil_id env frontend qn dfn ext oid = Inr sid
    \<and> generate env frontend dfn ext options = Inr ir
    \<and> c' = c(''options_id'' \<mapsto> oid, ''id'' \<mapsto> sid, ''ir'' \<mapsto> ir)"
  using assms
  by (auto simp: make_IRStage_def bind_Inr_iff getitem_Inr_iff Let_def)

lemma make_IRStage_idem:
  assumes "make_IRStage env c = Inr c'"
  shows "make_IRStage env c' = Inr c'"
proof -
  from make_IRStage_shape[OF assms] obtain frontend backend options qn dfn ext oid sid ir where
    h: "c ''frontend'' = Some frontend" "c ''backend'' = Some backend" "c ''options'' = Some options"
     "c ''qualified_name'' = Some qn" "c ''definition'' = Some dfn" "c ''externals'' = Some ext"
     "get_options_id env backend options = Inr oid"
     "get_stencil_id env frontend qn dfn ext oid = Inr sid"
     "generate env frontend dfn ext options = Inr ir"
     "c' = c(''options_id'' \<mapsto> oid, ''id'' \<mapsto> sid, ''ir'' \<mapsto> ir)"
    by blast
  have "make_IRStage env c' = Inr (c'(''options_id'' \<mapsto> oid, ''id'' \<mapsto> sid, ''ir'' \<mapsto> ir))"
    using h by (simp add: make_IRStage_def bind_def getitem_def Let_def)
  also have "c'(''options_id'' \<mapsto> oid, ''id'' \<mapsto> sid, ''ir'' \<mapsto> ir) = c'"
    using h(10) by (auto simp: fun_eq_iff)
  finally show ?thesis .
qed

lemma make_IIRStage_shape:
  assumes "make_IIRStage env c = Inr c'"
  shows "\<exists>backend options ir u iir.
      c ''backend'' = Some backend \<and> c ''options'' = Some options \<and> c ''ir'' = Some ir
    \<and> check_options env backend options = Inr u
    \<and> transform env ir options = Inr iir
    \<and> c' = c(''iir'' \<mapsto> iir)"
  using assms
  by (auto simp: make_IIRStage_def bind_Inr_iff getitem_Inr_iff)

lemma make_IIRStage_idem:
  assumes "make_IIRStage env c = Inr c'"
  shows "make_IIRStage env c' = Inr c'"
proof -
  from make_IIRStage_shape[OF assms] obtain backend options ir u iir where
    h: "c ''backend'' = Some backend" "c ''options'' = Some options" "c ''ir'' = Some ir"
     "check_options env backend options = Inr u"
     "transform env ir options = Inr iir"
     "c' = c(''iir'' \<mapsto> iir)"
    by blast
  show ?thesis
    using h by (simp add: make_IIRStage_def bind_def getitem_def)
qed

lemma make_py_module_shape:
  assumes "make_py_module env c = Inr c'"
  shows "\<exists>backend options go gen nm sid iir outp.
      c ''backend'' = Some backend \<and> c ''options'' = Some options \<and> c ''name'' = Some nm
    \<and> c ''id'' = Some sid \<and> c ''iir'' = Some iir
    \<and> as_dict env options = Inr go
    \<and> GENERATOR_CLASS env backend go = Inr gen
    \<and> generator_call env gen sid iir = Inr outp
    \<and> c' = c(''generator_options'' \<mapsto> go,
             ''src'' \<mapsto> PDict (AList.update (format_value env nm @ ''.py'') outp []))"
  using assms
  by (auto simp: make_py_module_def bind_Inr_iff getitem_Inr_iff Let_def)

lemma make_py_module_idem:
  assumes "make_py_module env c = Inr c'"
  shows "make_py_module env c' = Inr c'"
proof -
  from make_py_module_shape[OF assms] obtain backend options go gen nm sid iir outp where
    h: "c ''backend'' = Some backend" "c ''options'' = Some options" "c ''name'' = Some nm"
     "c ''id'' = Some sid" "c ''iir'' = Some iir"
     "as_dict env options = Inr go"
     "GENERATOR_CLASS env backend go = Inr gen"
     "generator_call env gen sid iir = Inr outp"
     "c' = c(''generator_options'' \<mapsto> go,
             ''src'' \<mapsto> PDict (AList.update (format_value env nm @ ''.py'') outp []))"
    by blast
  have "make_py_module env c' = Inr (c'(''generator_options'' \<mapsto> go,
             ''src'' \<mapsto> PDict (AList.update (format_value env nm @ ''.py'') outp [])))"
    using h by (simp add: make_py_module_def bind_def getitem_def Let_def)
  also have "c'(''generator_options'' \<mapsto> go,
             ''src'' \<mapsto> PDict (AList.update (format_value env nm @ ''.py'') outp [])) = c'"
    using h(9) by (auto simp: fun_eq_iff)
  finally show ?thesis .
qed

lemma rename_computation_src_det:
  assumes "rename_computation_src env backend (c(''src'' \<mapsto> s)) = Inr d"
  shows "\<exists>s'. d = c(''src'' \<mapsto> s')
           \<and> (\<forall>c2. rename_computation_src env backend (c2(''src'' \<mapsto> s)) = Inr (c2(''src'' \<mapsto> s')))"
proof (cases "contains s ''computation.src'' = Inr True")
  case True
  with assms obtain v s2 ext s4 where
    h: "dict_pop s ''computation.src'' = Inr (v, s2)" "SRC_EXTENSION env backend = Inr ext"
       "setitem s2 (''computation.'' @ format_value env ext) v = Inr s4"
       "d = c(''src'' \<mapsto> s4)"
    by (auto simp: rename_computation_src_def bind_Inr_iff getitem_Inr_iff Let_def)
  with True show ?thesis
    by (auto simp: rename_computation_src_def bind_def getitem_def Let_def)
next
  case False
  with assms have nf: "contains s ''computation.src'' = Inr False"
    by (auto simp: rename_computation_src_def bind_Inr_iff getitem_Inr_iff split: if_splits)
  with assms have "d = c(''src'' \<mapsto> s)"
    by (auto simp: rename_computation_src_def bind_Inr_iff getitem_Inr_iff split: if_splits)
  with nf show ?thesis
    by (auto simp: rename_computation_src_def bind_def getitem_def)
qed

lemma setitem_twice:
  "setitem b k v = Inr b' \<Longrightarrow> setitem b' k v = Inr b'"
  by (cases b) auto

lemma move_bindings_cpp_again:
  assumes "move_bindings_cpp (c(''src'' \<mapsto> s)) = Inr d"
  shows "move_bindings_cpp (d(''src'' \<mapsto> s)) = Inr d"
proof (cases "contains s ''bindings.cpp'' = Inr True")
  case True
  with assms obtain v s2 b' where
    h: "dict_pop s ''bindings.cpp'' = Inr (v, s2)"
       "setitem (ctx_get c ''bindings_src'' (PDict [])) ''bindings.cpp'' v = Inr b'"
       "d = c(''src'' \<mapsto> s2, ''bindings_src'' \<mapsto> b')"
    by (auto simp: move_bindings_cpp_def bind_Inr_iff getitem_Inr_iff Let_def ctx_get_def)
  from h(2) have again: "setitem b' ''bindings.cpp'' v = Inr b'"
    by (rule setitem_twice)
  have "move_bindings_cpp (d(''src'' \<mapsto> s)) = Inr (d(''src'' \<mapsto> s2, ''bindings_src'' \<mapsto> b'))"
    using True h again
    by (simp add: move_bindings_cpp_def bind_def getitem_def Let_def ctx_get_def)
  also have "d(''src'' \<mapsto> s2, ''bindings_src'' \<mapsto> b') = d"
    using h(3) by (auto simp: fun_eq_iff)
  finally show ?thesis .
next
  case False
  with assms have nf: "contains s ''bindings.cpp'' = Inr False"
    by (auto simp: move_bindings_cpp_def bind_Inr_iff getitem_Inr_iff split: if_splits)
  with assms have "d = c(''src'' \<mapsto> s)"
    by (auto simp: move_bindings_cpp_def bind_Inr_iff getitem_Inr_iff split: if_splits)
  with nf show ?thesis
    by (auto simp: move_bindings_cpp_def bind_def getitem_def)
qed

lemma move_bindings_cpp_frame:
  assumes "move_bindings_cpp c = Inr d" and "k \<noteq> ''src''" and "k \<noteq> ''bindings_src''"
  shows "d k = c k"
  using assms
  by (auto simp: move_bindings_cpp_def bind_Inr_iff getitem_Inr_iff Let_def split: if_splits)

lemma make_lang_src_idem:
  assumes "make_lang_src env c = Inr c'"
  shows "make_lang_src env c' = Inr c'"
proof -
  from assms obtain backend sid cn mn arch options gen iir src d where
    h: "c ''backend'' = Some backend" "c ''id'' = Some sid" "c ''options'' = Some options"
       "c ''iir'' = Some iir"
       "get_pyext_class_name env backend sid = Inr cn"
       "get_pyext_module_name env backend sid = Inr mn"
       "CPU_ARCHITECTURE env backend = Inr arch"
       "PYEXT_GENERATOR_CLASS env backend cn mn arch options = Inr gen"
       "pyext_generator_call env gen iir = Inr src"
       "rename_computation_src env backend (c(''src'' \<mapsto> src)) = Inr d"
       "move_bindings_cpp d = Inr c'"
    by (auto simp: make_lang_src_def bind_Inr_iff getitem_Inr_iff)
  from rename_computation_src_det[OF h(10)] obtain s' where
    s': "d = c(''src'' \<mapsto> s')"
        "\<And>c2. rename_computation_src env backend (c2(''src'' \<mapsto> src)) = Inr (c2(''src'' \<mapsto> s'))"
    by blast
  from h(11) s'(1) have mv: "move_bindings_cpp (c(''src'' \<mapsto> s')) = Inr c'"
    by simp
  have frame: "c' ''backend'' = Some backend" "c' ''id'' = Some sid" "c' ''options'' = Some options"
       "c' ''iir'' = Some iir"
    using move_bindings_cpp_frame[OF mv] h(1-4) by simp_all
  have "make_lang_src env c' = bind (rename_computation_src env backend (c'(''src'' \<mapsto> src))) move_bindings_cpp"
    using frame h(5-9) by (simp add: make_lang_src_def bind_def getitem_def)
  also have "\<dots> = move_bindings_cpp (c'(''src'' \<mapsto> s'))"
    by (simp add: s'(2) bind_def)
  also have "\<dots> = Inr c'"
    by (rule move_bindings_cpp_again[OF mv])
  finally show ?thesis .
qed

lemma make_lang_src_frame:
  assumes "make_lang_src env c = Inr c'" and "k \<noteq> ''src''" and "k \<noteq> ''bindings_src''"
  shows "c' k = c k"
proof -
  from assms(1) obtain backend src d where
    h: "rename_computation_src env backend (c(''src'' \<mapsto> src)) = Inr d"
       "move_bindings_cpp d = Inr c'"
    by (auto simp: make_lang_src_def bind_Inr_iff getitem_Inr_iff)
  from rename_computation_src_det[OF h(1)] obtain s' where "d = c(''src'' \<mapsto> s')"
    by blast
  with move_bindings_cpp_frame[OF h(2) assms(2,3)] assms(2) show ?thesis
    by simp
qed

lemma make_SourceStage_idem:
  assumes "make_SourceStage env c = Inr c'"
  shows "make_SourceStage env c' = Inr c'"
proof -
  from assms obtain backend langs where
    h: "c ''backend'' = Some backend" "BINDINGS_LANGUAGES env backend = Inr langs"
       "(if \<not> truthy langs then make_py_module env c else make_lang_src env c) = Inr c'"
    by (auto simp: make_SourceStage_def bind_Inr_iff getitem_Inr_iff)
  show ?thesis
  proof (cases "truthy langs")
    case True
    with h(3) have run: "make_lang_src env c = Inr c'" by simp
    from make_lang_src_frame[OF run, of "''backend''"] h(1) have "c' ''backend'' = Some backend"
      by simp
    with h(2) True make_lang_src_idem[OF run] show ?thesis
      by (simp add: make_SourceStage_def bind_def getitem_def)
  next
    case False
    with h(3) have run: "make_py_module env c = Inr c'" by simp
    from make_py_module_shape[OF run] h(1) have "c' ''backend'' = Some backend"
      by auto
    with h(2) False make_py_module_idem[OF run] show ?thesis
      by (simp add: make_SourceStage_def bind_def getitem_def)
  qed
qed


lemma make_BindingsStage_skip:
  assumes "c ''bindings'' = Some b" and "contains b ''python'' = Inr False"
  shows "make_BindingsStage env c = Inr c"
  using assms by (simp add: make_BindingsStage_def bind_def getitem_def)

lemma make_BindingsStage_shape:
  assumes "make_BindingsStage env c = Inr c'"
  shows "(\<exists>b. c ''bindings'' = Some b \<and> contains b ''python'' = Inr False \<and> c' = c)
       \<or> (\<exists>b backend options go0 nm go1 path go gen cpp sid iir outp.
            c ''bindings'' = Some b \<and> contains b ''python'' = Inr True
          \<and> c ''backend'' = Some backend \<and> c ''options'' = Some options \<and> c ''name'' = Some nm
          \<and> c ''pyext_file_path'' = Some path \<and> c ''id'' = Some sid \<and> c ''iir'' = Some iir
          \<and> as_dict env options = Inr go0
          \<and> setitem go0 ''pyext_module_name''
               (ctx_get c ''pyext_module_name'' (PStr (''_'' @ format_value env nm))) = Inr go1
          \<and> setitem go1 ''pyext_file_path'' path = Inr go
          \<and> GENERATOR_CLASS env backend go = Inr gen
          \<and> dict_get (ctx_get c ''bindings_src'' (PDict [])) ''bindings.cpp'' (PStr []) = Inr cpp
          \<and> generator_call env gen sid iir = Inr outp
          \<and> c' = c(''generator_options'' \<mapsto> go,
                   ''bindings_src'' \<mapsto> PDict (AList.update ''python''
                      (PDict (AList.update (format_value env nm @ ''.py'') outp
                         (AList.update ''bindings.cpp'' cpp []))) [])))"
proof -
  from assms obtain b found where b: "c ''bindings'' = Some b" "contains b ''python'' = Inr found"
    by (auto simp: make_BindingsStage_def bind_Inr_iff getitem_Inr_iff)
  show ?thesis
  proof (cases found)
    case False
    with assms b show ?thesis
      by (simp add: make_BindingsStage_def bind_def getitem_def)
  next
    case True
    with assms b show ?thesis
      by (auto simp: make_BindingsStage_def bind_Inr_iff getitem_Inr_iff Let_def ctx_get_def)
  qed
qed

lemma py_key_not_cpp: "xs @ ''.py'' \<noteq> ''bindings.cpp''"
proof
  assume "xs @ ''.py'' = ''bindings.cpp''"
  then have "last (xs @ ''.py'') = last ''bindings.cpp''" by simp
  then show False by simp
qed

lemma make_BindingsStage_twice:
  assumes "make_BindingsStage env c = Inr c'"
  shows "make_BindingsStage env c' = Inr c' \<longleftrightarrow>
           (\<exists>b. c ''bindings'' = Some b \<and> contains b ''python'' = Inr False)
         \<or> dict_get (ctx_get c ''bindings_src'' (PDict [])) ''bindings.cpp'' (PStr []) = Inr (PStr [])"
  using make_BindingsStage_shape[OF assms]
proof (elim disjE exE conjE)
  fix b
  assume h: "c ''bindings'' = Some b" "contains b ''python'' = Inr False" "c' = c"
  then show ?thesis
    using make_BindingsStage_skip[of c b env] by auto
next
  fix b backend options go0 nm go1 path go gen cpp sid iir outp
  assume h: "c ''bindings'' = Some b" "contains b ''python'' = Inr True"
    "c ''backend'' = Some backend" "c ''options'' = Some options" "c ''name'' = Some nm"
    "c ''pyext_file_path'' = Some path" "c ''id'' = Some sid" "c ''iir'' = Some iir"
    "as_dict env options = Inr go0"
    "setitem go0 ''pyext_module_name''
       (ctx_get c ''pyext_module_name'' (PStr (''_'' @ format_value env nm))) = Inr go1"
    "setitem go1 ''pyext_file_path'' path = Inr go"
    "GENERATOR_CLASS env backend go = Inr gen"
    "dict_get (ctx_get c ''bindings_src'' (PDict [])) ''bindings.cpp'' (PStr []) = Inr cpp"
    "generator_call env gen sid iir = Inr outp"
    and c': "c' = c(''generator_options'' \<mapsto> go,
                   ''bindings_src'' \<mapsto> PDict (AList.update ''python''
                      (PDict (AList.update (format_value env nm @ ''.py'') outp
                         (AList.update ''bindings.cpp'' cpp []))) []))"
  have second: "make_BindingsStage env c' =
      Inr (c'(''generator_options'' \<mapsto> go,
              ''bindings_src'' \<mapsto> PDict (AList.update ''python''
                      (PDict (AList.update (format_value env nm @ ''.py'') outp
                         (AList.update ''bindings.cpp'' (PStr []) []))) [])))"
    using h c'
    by (simp add: make_BindingsStage_def bind_def getitem_def Let_def ctx_get_def)
  have "make_BindingsStage env c' = Inr c' \<longleftrightarrow> cpp = PStr []"
  proof
    assume "make_BindingsStage env c' = Inr c'"
    with second have "c'(''generator_options'' \<mapsto> go,
              ''bindings_src'' \<mapsto> PDict (AList.update ''python''
                      (PDict (AList.update (format_value env nm @ ''.py'') outp
                         (AList.update ''bindings.cpp'' (PStr []) []))) [])) = c'"
      by simp
    then have "(c'(''generator_options'' \<mapsto> go,
              ''bindings_src'' \<mapsto> PDict (AList.update ''python''
                      (PDict (AList.update (format_value env nm @ ''.py'') outp
                         (AList.update ''bindings.cpp'' (PStr []) []))) []))) ''bindings_src''
            = c' ''bindings_src''"
      by simp
    then show "cpp = PStr []"
      using py_key_not_cpp[of "format_value env nm"] by (simp add: c' split: if_splits)
  next
    assume e: "cpp = PStr []"
    have "c'(''generator_options'' \<mapsto> go,
              ''bindings_src'' \<mapsto> PDict (AList.update ''python''
                      (PDict (AList.update (format_value env nm @ ''.py'') outp
                         (AList.update ''bindings.cpp'' (PStr []) []))) [])) = c'"
      by (rule ext) (simp add: c' e)
    with second show "make_BindingsStage env c' = Inr c'"
      by simp
  qed
  with h(1,2,13) show ?thesis by auto
qed

lemma make_BindingsStage_frame:
  assumes "make_BindingsStage env c = Inr c'"
    and "k \<noteq> ''generator_options''" and "k \<noteq> ''bindings_src''"
  shows "c' k = c k"
  using make_BindingsStage_shape[OF assms(1)] assms(2,3) by auto

lemma make_BindingsStage_dom:
  assumes "make_BindingsStage env c = Inr c'"
  shows "dom c \<subseteq> dom c'"
  using make_BindingsStage_shape[OF assms] by auto

lemma move_bindings_cpp_dom:
  assumes "move_bindings_cpp c = Inr d"
  shows "dom c \<subseteq> dom d"
  using assms
  by (auto simp: move_bindings_cpp_def bind_Inr_iff getitem_Inr_iff Let_def split: if_splits)

lemma make_lang_src_dom:
  assumes "make_lang_src env c = Inr c'"
  shows "dom c \<subseteq> dom c'"
proof -
  from assms(1) obtain backend src d where
    h: "rename_computation_src env backend (c(''src'' \<mapsto> src)) = Inr d"
       "move_bindings_cpp d = Inr c'"
    by (auto simp: make_lang_src_def bind_Inr_iff getitem_Inr_iff)
  from rename_computation_src_det[OF h(1)] obtain s' where "d = c(''src'' \<mapsto> s')"
    by blast
  with move_bindings_cpp_dom[OF h(2)] show ?thesis
    by auto
qed

lemma make_frame:
  assumes "make env s c = Inr c'" and "k \<notin> written_keys s"
  shows "c' k = c k"
proof (cases s)
  case BeginStage
  with assms show ?thesis by (simp add: make_BeginStage_def)
next
  case IRStage
  with assms make_IRStage_shape[of env c c'] show ?thesis by auto
next
  case IIRStage
  with assms make_IIRStage_shape[of env c c'] show ?thesis by auto
next
  case SourceStage
  with assms obtain backend langs where
    h: "(if \<not> truthy langs then make_py_module env c else make_lang_src env c) = Inr c'"
    by (auto simp: make_SourceStage_def bind_Inr_iff)
  show ?thesis
  proof (cases "truthy langs")
    case True
    with h SourceStage assms(2) make_lang_src_frame[of env c c' k] show ?thesis by simp
  next
    case False
    with h SourceStage assms(2) make_py_module_shape[of env c c'] show ?thesis by auto
  qed
next
  case BindingsStage
  with assms make_BindingsStage_frame[of env c c' k] show ?thesis by simp
qed

lemma make_dom:
  assumes "make env s c = Inr c'"
  shows "dom c \<subseteq> dom c'"
proof (cases s)
  case BeginStage
  with assms show ?thesis by (simp add: make_BeginStage_def)
next
  case IRStage
  with assms make_IRStage_shape[of env c c'] show ?thesis by auto
next
  case IIRStage
  with assms make_IIRStage_shape[of env c c'] show ?thesis by auto
next
  case SourceStage
  with assms obtain backend langs where
    h: "(if \<not> truthy langs then make_py_module env c else make_lang_src env c) = Inr c'"
    by (auto simp: make_SourceStage_def bind_Inr_iff)
  show ?thesis
  proof (cases "truthy langs")
    case True
    with h make_lang_src_dom[of env c c'] show ?thesis by simp
  next
    case False
    with h make_py_module_shape[of env c c'] show ?thesis by auto
  qed
next
  case BindingsStage
  with assms make_BindingsStage_dom[of env c c'] show ?thesis by simp
qed

lemma make_idem_not_bindings:
  assumes "make env s c = Inr c'" and "s \<noteq> BindingsStage"
  shows "make env s c' = Inr c'"
proof (cases s)
  case BeginStage
  with assms show ?thesis by (simp add: make_BeginStage_def)
next
  case IRStage
  with assms make_IRStage_idem[of env c c'] show ?thesis by simp
next
  case IIRStage
  with assms make_IIRStage_idem[of env c c'] show ?thesis by simp
next
  case SourceStage
  with assms make_SourceStage_idem[of env c c'] show ?thesis by simp
next
  case BindingsStage
  with assms show ?thesis by simp
qed

lemma set_no_replace_keeps: "c k = Some v \<Longrightarrow> set_no_replace c k' x k = Some v"
  by (auto simp: set_no_replace_def)

lemma set_no_replace_dom: "k \<in> dom c \<Longrightarrow> set_no_replace c k v = c"
  by (simp add: set_no_replace_def)

lemma BuildContext_init_keeps:
  assumes "BuildContext_init env dfn kwargs = Inr c" and "kwargs k = Some v" and "v \<noteq> PNone"
  shows "c k = Some v"
proof -
  from assms(1) have nd: "''definition'' \<notin> dom kwargs"
    by (auto simp: BuildContext_init_def split: if_splits)
  with assms(2) have k: "k \<noteq> ''definition''" by auto
  define data1 where "data1 = (\<lambda>k. case kwargs k of None \<Rightarrow> None
                          | Some v \<Rightarrow> (if v \<noteq> PNone then Some v else None))(''definition'' \<mapsto> dfn)"
  from assms(2,3) k have d1: "data1 k = Some v"
    by (simp add: data1_def)
  from assms(1) nd obtain nm qn opts where
    "c = set_no_replace (set_no_replace (set_no_replace (set_no_replace (set_no_replace
           (set_no_replace data1 ''module'' (definition_module env dfn)) ''name'' nm)
           ''externals'' (PDict [])) ''qualified_name'' qn) ''build_info'' (PDict []))
           ''options'' opts"
    by (auto simp: BuildContext_init_def bind_Inr_iff Let_def data1_def)
  with d1 show ?thesis
    by (simp add: set_no_replace_keeps)
qed

lemma demo_bare_ctx_init: "BuildContext_init demo_env (PObj 0) Map.empty = Inr demo_bare_ctx"
  by (simp add: BuildContext_init_def demo_env_def demo_bare_ctx_def set_no_replace_def
      bind_def getitem_def format_value_def Let_def)

lemma demo_named_ctx_init:
  "BuildContext_init demo_env (PObj 0) [''name'' \<mapsto> PStr ''mine''] = Inr demo_named_ctx"
proof -
  have kw: "(\<lambda>k. case [''name'' \<mapsto> PStr ''mine''] k of None \<Rightarrow> None
              | Some v \<Rightarrow> (if v \<noteq> PNone then Some v else None)) = [''name'' \<mapsto> PStr ''mine'']"
    by (rule ext) simp
  show ?thesis
    unfolding BuildContext_init_def kw
    by (simp add: demo_env_def demo_named_ctx_def set_no_replace_def
        bind_def getitem_def format_value_def Let_def)
qed

lemma demo_bindings_first:
  "make_BindingsStage demo_env demo_bindings_ctx = Inr demo_bindings_once"
  by (simp add: make_BindingsStage_def demo_env_def demo_bindings_ctx_def demo_bindings_once_def
      bind_def getitem_def ctx_get_def format_value_def Let_def)

lemma demo_bindings_second:
  "make_BindingsStage demo_env demo_bindings_once = Inr demo_bindings_twice"
  by (simp add: make_BindingsStage_def demo_env_def demo_bindings_ctx_def demo_bindings_once_def
      demo_bindings_twice_def bind_def getitem_def ctx_get_def format_value_def Let_def)



lemma make_next_Begin:
  "make_next env BeginStage c =
     (case make_IRStage env c of Inl e \<Rightarrow> Inl e | Inr c' \<Rightarrow> Inr (Some (IRStage, c')))"
  by (simp add: make_next_def bind_def split: sum.splits)

lemma make_next_IR:
  "make_next env IRStage c =
     (case make_IIRStage env c of Inl e \<Rightarrow> Inl e | Inr c' \<Rightarrow> Inr (Some (IIRStage, c')))"
  by (simp add: make_next_def bind_def split: sum.splits)

lemma make_next_IIR:
  "make_next env IIRStage c =
     (case make_SourceStage env c of Inl e \<Rightarrow> Inl e | Inr c' \<Rightarrow> Inr (Some (SourceStage, c')))"
  by (simp add: make_next_def bind_def split: sum.splits)

lemma make_next_Source:
  "make_next env SourceStage c =
     (case is_final env SourceStage c of
        Inl e \<Rightarrow> Inl e
      | Inr final \<Rightarrow>
          if final then Inr None
          else (case make_BindingsStage env c of
                  Inl e \<Rightarrow> Inl e
                | Inr c' \<Rightarrow> Inr (Some (BindingsStage, c'))))"
  by (simp add: make_next_def bind_def del: is_final.simps split: sum.splits)

lemma make_next_Bindings: "make_next env BindingsStage c = Inr None"
  by (simp add: make_next_def bind_def)

text \<open>A complete run: four transitions, every stage once, ending in \<open>BindingsStage\<close>.\<close>

lemma demo_full_run_IR: "make_IRStage demo_env demo_full_ctx =
   Inr (demo_full_ctx(''options_id'' \<mapsto> PStr ''opt0'', ''id'' \<mapsto> PStr ''id0'', ''ir'' \<mapsto> PObj 2))"
  by (simp add: make_IRStage_def demo_env_def demo_full_ctx_def demo_bare_ctx_def bind_def
      getitem_def Let_def)

lemma demo_full_run_IIR: "make_IIRStage demo_env
     (demo_full_ctx(''options_id'' \<mapsto> PStr ''opt0'', ''id'' \<mapsto> PStr ''id0'', ''ir'' \<mapsto> PObj 2)) =
   Inr (demo_full_ctx(''options_id'' \<mapsto> PStr ''opt0'', ''id'' \<mapsto> PStr ''id0'', ''ir'' \<mapsto> PObj 2,
          ''iir'' \<mapsto> PObj 3))"
  by (simp add: make_IIRStage_def demo_env_def demo_full_ctx_def demo_bare_ctx_def bind_def
      getitem_def Let_def)

lemma demo_full_run_Source: "make_SourceStage demo_env
     (demo_full_ctx(''options_id'' \<mapsto> PStr ''opt0'', ''id'' \<mapsto> PStr ''id0'', ''ir'' \<mapsto> PObj 2,
          ''iir'' \<mapsto> PObj 3)) =
   Inr (demo_full_ctx(''options_id'' \<mapsto> PStr ''opt0'', ''id'' \<mapsto> PStr ''id0'', ''ir'' \<mapsto> PObj 2,
          ''iir'' \<mapsto> PObj 3,
          ''src'' \<mapsto> PDict [(''computation.cpp'', PStr ''kernel'')],
          ''bindings_src'' \<mapsto> PDict [(''bindings.cpp'', PStr ''glue'')]))"
  by (simp add: make_SourceStage_def make_lang_src_def rename_computation_src_def
      move_bindings_cpp_def demo_env_def demo_full_ctx_def demo_bare_ctx_def bind_def
      getitem_def ctx_get_def format_value_def Let_def fun_upd_twist)

lemma demo_full_run_not_final: "is_final demo_env SourceStage
     (demo_full_ctx(''options_id'' \<mapsto> PStr ''opt0'', ''id'' \<mapsto> PStr ''id0'', ''ir'' \<mapsto> PObj 2,
          ''iir'' \<mapsto> PObj 3,
          ''src'' \<mapsto> PDict [(''computation.cpp'', PStr ''kernel'')],
          ''bindings_src'' \<mapsto> PDict [(''bindings.cpp'', PStr ''glue'')])) = Inr False"
  by (simp add: demo_env_def demo_full_ctx_def demo_bare_ctx_def bind_def getitem_def ctx_get_def)

lemma demo_full_run_Bindings: "make_BindingsStage demo_env
     (demo_full_ctx(''options_id'' \<mapsto> PStr ''opt0'', ''id'' \<mapsto> PStr ''id0'', ''ir'' \<mapsto> PObj 2,
          ''iir'' \<mapsto> PObj 3,
          ''src'' \<mapsto> PDict [(''computation.cpp'', PStr ''kernel'')],
          ''bindings_src'' \<mapsto> PDict [(''bindings.cpp'', PStr ''glue'')])) =
   Inr (demo_full_ctx(''options_id'' \<mapsto> PStr ''opt0'', ''id'' \<mapsto> PStr ''id0'', ''ir'' \<mapsto> PObj 2,
          ''iir'' \<mapsto> PObj 3,
          ''src'' \<mapsto> PDict [(''computation.cpp'', PStr ''kernel'')],
          ''generator_options'' \<mapsto>
             PDict [(''pyext_module_name'', PStr ''_copy''), (''pyext_file_path'', PStr ''_copy.so'')],
          ''bindings_src'' \<mapsto>
             PDict [(''python'',
                     PDict [(''bindings.cpp'', PStr ''glue''), (''copy.py'', PStr ''module'')])]))"
  by (simp add: make_BindingsStage_def demo_env_def demo_full_ctx_def demo_bare_ctx_def bind_def
      getitem_def ctx_get_def format_value_def Let_def fun_upd_twist)

lemma drive_numeral:
  "drive env (numeral k) s c visited =
     (case make_next env s c of
        Inl e \<Rightarrow> Aborted visited e
      | Inr None \<Rightarrow> Finished visited c
      | Inr (Some (s', c')) \<Rightarrow> drive env (pred_numeral k) s' c' (visited @ [s']))"
  by (simp add: numeral_eq_Suc)

lemma pipeline_full_run_example:
  "drive demo_env 5 BeginStage demo_full_ctx [BeginStage] =
     Finished [BeginStage, IRStage, IIRStage, SourceStage, BindingsStage]
       (demo_full_ctx(''options_id'' \<mapsto> PStr ''opt0'', ''id'' \<mapsto> PStr ''id0'', ''ir'' \<mapsto> PObj 2,
          ''iir'' \<mapsto> PObj 3,
          ''src'' \<mapsto> PDict [(''computation.cpp'', PStr ''kernel'')],
          ''generator_options'' \<mapsto>
             PDict [(''pyext_module_name'', PStr ''_copy''), (''pyext_file_path'', PStr ''_copy.so'')],
          ''bindings_src'' \<mapsto>
             PDict [(''python'',
                     PDict [(''bindings.cpp'', PStr ''glue''), (''copy.py'', PStr ''module'')])]))"
  by (simp add: drive_numeral make_next_Begin make_next_IR make_next_IIR make_next_Source
      make_next_Bindings demo_full_run_IR demo_full_run_IIR demo_full_run_Source
      demo_full_run_not_final demo_full_run_Bindings del: is_final.simps)

text \<open>
  C5, as stated, fails: the context that \<open>BuildContext(definition)\<close> builds has no
  \<open>frontend\<close>, so the first \<open>make_next\<close> (into \<open>IRStage\<close>) raises \<open>KeyError\<close> and no
  final stage is ever reached.
\<close>

theorem pipeline_aborts_counterexample:
  "BuildContext_init demo_env (PObj 0) Map.empty = Inr demo_bare_ctx
   \<and> drive demo_env 5 BeginStage demo_bare_ctx [BeginStage]
       = Aborted [BeginStage] (KeyError ''frontend'')"
  using demo_bare_ctx_init
  by (simp add: numeral_eq_Suc make_next_Begin make_IRStage_def getitem_def bind_def
      demo_bare_ctx_def)

text \<open>
  C5, amended. From \<open>BeginStage\<close>, on every context and with any collaborators, repeated
  calls of \<open>make_next\<close> end within five calls, that is after at most four transitions:
  either \<open>make_next\<close> returns \<open>None\<close> at a stage whose \<open>is_final\<close> is true, after the
  stages Begin, IR, IIR, Source and optionally Bindings in this order, or a stage raises
  and the build is aborted. In both cases the stages visited are a prefix of Begin, IR, IIR,
  Source, Bindings, so no stage is visited twice.
\<close>

theorem pipeline_ends_within_four_transitions:
  "\<exists>visited.
     ((\<exists>c'. drive env 5 BeginStage c [BeginStage] = Finished visited c'
           \<and> is_final env (last visited) c' = Inr True
           \<and> (visited = [BeginStage, IRStage, IIRStage, SourceStage]
              \<or> visited = [BeginStage, IRStage, IIRStage, SourceStage, BindingsStage]))
      \<or> (\<exists>e. drive env 5 BeginStage c [BeginStage] = Aborted visited e))
     \<and> distinct visited
     \<and> length visited - 1 \<le> 4
     \<and> visited = take (length visited) [BeginStage, IRStage, IIRStage, SourceStage, BindingsStage]"
proof (cases "make_IRStage env c")
  case (Inl e)
  then show ?thesis
    by (simp add: numeral_eq_Suc make_next_Begin)
next
  case c1: (Inr c1)
  show ?thesis
  proof (cases "make_IIRStage env c1")
    case (Inl e)
    with c1 show ?thesis
      by (simp add: numeral_eq_Suc make_next_Begin make_next_IR)
  next
    case c2: (Inr c2)
    show ?thesis
    proof (cases "make_SourceStage env c2")
      case (Inl e)
      with c1 c2 show ?thesis
        by (simp add: numeral_eq_Suc make_next_Begin make_next_IR make_next_IIR)
    next
      case c3: (Inr c3)
      show ?thesis
      proof (cases "is_final env SourceStage c3")
        case (Inl e)
        with c1 c2 c3 show ?thesis
          by (simp add: numeral_eq_Suc make_next_Begin make_next_IR make_next_IIR
              make_next_Source del: is_final.simps)
      next
        case (Inr final)
        show ?thesis
        proof (cases final)
          case True
          with Inr c1 c2 c3 show ?thesis
            by (simp add: numeral_eq_Suc make_next_Begin make_next_IR make_next_IIR
                make_next_Source del: is_final.simps)
        next
          case False
          show ?thesis
          proof (cases "make_BindingsStage env c3")
            case (Inl e)
            with False Inr c1 c2 c3 show ?thesis
              by (simp add: numeral_eq_Suc make_next_Begin make_next_IR make_next_IIR
                  make_next_Source del: is_final.simps)
          next
            case c4: (Inr c4)
            with False Inr c1 c2 c3 show ?thesis
              by (simp add: numeral_eq_Suc make_next_Begin make_next_IR make_next_IIR
                  make_next_Source make_next_Bindings del: is_final.simps(1))
          qed
        qed
      qed
    qed
  qed
qed

text \<open>
  C6. When the context has a backend whose \<open>BINDINGS_LANGUAGES\<close> can be read,
  \<open>SourceStage.is_final()\<close> returns true exactly when \<open>BINDINGS_LANGUAGES\<close> is falsy or
  the context's \<open>bindings\<close> entry is absent or falsy. The next stage of \<open>SourceStage\<close>
  is \<open>BindingsStage\<close>: when the stage is not final, \<open>make_next\<close> makes the bindings stage.
\<close>

theorem source_stage_final_iff:
  assumes "c ''backend'' = Some backend" and "BINDINGS_LANGUAGES env backend = Inr langs"
  shows "is_final env SourceStage c = Inr (\<not> truthy langs \<or> \<not> bindings_requested c)
       \<and> next_stage SourceStage = Some BindingsStage
       \<and> make_next env SourceStage c =
           (if \<not> truthy langs \<or> \<not> bindings_requested c then Inr None
            else bind (make env BindingsStage c) (\<lambda>c'. Inr (Some (BindingsStage, c'))))"
proof -
  have fin: "is_final env SourceStage c = Inr (\<not> truthy langs \<or> \<not> bindings_requested c)"
    using assms
    by (simp add: bind_def getitem_def ctx_get_def bindings_requested_def split: option.splits)
  then show ?thesis
    by (simp add: make_next_def bind_def del: is_final.simps)
qed

theorem source_stage_final_iff_witness:
  "demo_source_ctx ''backend'' = Some (PObj 11)
   \<and> BINDINGS_LANGUAGES demo_env (PObj 11) = Inr (PList [PStr ''python''])
   \<and> bindings_requested demo_source_ctx
   \<and> is_final demo_env SourceStage demo_source_ctx = Inr False
   \<and> is_final demo_env SourceStage (demo_source_ctx(''bindings'' := None)) = Inr True"
proof -
  have b: "demo_source_ctx ''backend'' = Some (PObj 11)"
    and b': "(demo_source_ctx(''bindings'' := None)) ''backend'' = Some (PObj 11)"
    by (simp_all add: demo_source_ctx_def)
  have l: "BINDINGS_LANGUAGES demo_env (PObj 11) = Inr (PList [PStr ''python''])"
    by (simp add: demo_env_def)
  have r: "bindings_requested demo_source_ctx"
    and r': "\<not> bindings_requested (demo_source_ctx(''bindings'' := None))"
    by (simp_all add: bindings_requested_def demo_source_ctx_def)
  from source_stage_final_iff[where c = demo_source_ctx and env = demo_env, OF b l] r
  have "is_final demo_env SourceStage demo_source_ctx = Inr False"
    by simp
  moreover from source_stage_final_iff[where c = "demo_source_ctx(''bindings'' := None)" and env = demo_env, OF b' l] r'
  have "is_final demo_env SourceStage (demo_source_ctx(''bindings'' := None)) = Inr True"
    by simp
  ultimately show ?thesis
    using b l r by simp
qed

text \<open>
  C7, as stated, fails for \<open>BindingsStage\<close>: its second run looks for \<open>bindings.cpp\<close> in
  the \<open>bindings_src\<close> that the first run has just replaced, finds none and writes the empty
  string where the first run had written the source.
\<close>

theorem make_twice_counterexample:
  "make demo_env BindingsStage demo_bindings_ctx = Inr demo_bindings_once
   \<and> make demo_env BindingsStage demo_bindings_once = Inr demo_bindings_twice
   \<and> demo_bindings_twice ''bindings_src'' \<noteq> demo_bindings_once ''bindings_src''
   \<and> demo_bindings_twice \<noteq> demo_bindings_once"
proof -
  have d: "demo_bindings_twice ''bindings_src'' \<noteq> demo_bindings_once ''bindings_src''"
    by (simp add: demo_bindings_twice_def demo_bindings_once_def)
  then have "demo_bindings_twice \<noteq> demo_bindings_once"
    by auto
  with d demo_bindings_first demo_bindings_second show ?thesis
    by simp
qed

text \<open>
  C7, amended. With collaborators that are functions of their arguments, a second run of
  \<open>make\<close> on the context a successful first run left gives that context again for
  \<open>BeginStage\<close>, \<open>IRStage\<close>, \<open>IIRStage\<close> and \<open>SourceStage\<close>. For \<open>BindingsStage\<close> it does
  so exactly when \<open>python\<close> is not among the bindings or the \<open>bindings.cpp\<close> source found
  in \<open>bindings_src\<close> before the first run is missing or the empty string.
\<close>

theorem make_idempotent_but_bindings:
  assumes "make env s c = Inr c'"
  shows "(s \<noteq> BindingsStage \<longrightarrow> make env s c' = Inr c')
       \<and> (s = BindingsStage \<longrightarrow>
            (make env s c' = Inr c' \<longleftrightarrow>
               (\<exists>b. c ''bindings'' = Some b \<and> contains b ''python'' = Inr False)
             \<or> dict_get (ctx_get c ''bindings_src'' (PDict [])) ''bindings.cpp'' (PStr [])
                 = Inr (PStr [])))"
proof (intro conjI impI)
  assume "s \<noteq> BindingsStage"
  with assms show "make env s c' = Inr c'"
    by (rule make_idem_not_bindings)
next
  assume "s = BindingsStage"
  with assms make_BindingsStage_twice[of env c c']
  show "make env s c' = Inr c' \<longleftrightarrow>
               (\<exists>b. c ''bindings'' = Some b \<and> contains b ''python'' = Inr False)
             \<or> dict_get (ctx_get c ''bindings_src'' (PDict [])) ''bindings.cpp'' (PStr [])
                 = Inr (PStr [])"
    by simp
qed

theorem make_idempotent_but_bindings_witness:
  "make demo_env IIRStage demo_iir_ctx = Inr (demo_iir_ctx(''iir'' \<mapsto> PObj 3))
   \<and> make demo_env IIRStage (demo_iir_ctx(''iir'' \<mapsto> PObj 3))
       = Inr (demo_iir_ctx(''iir'' \<mapsto> PObj 3))
   \<and> make demo_env BindingsStage demo_no_python_ctx = Inr demo_no_python_ctx"
proof -
  have a: "make demo_env IIRStage demo_iir_ctx = Inr (demo_iir_ctx(''iir'' \<mapsto> PObj 3))"
    by (simp add: make_IIRStage_def demo_env_def demo_iir_ctx_def bind_def getitem_def)
  have b: "make demo_env BindingsStage demo_no_python_ctx = Inr demo_no_python_ctx"
    by (simp add: make_BindingsStage_def demo_no_python_ctx_def bind_def getitem_def)
  have np: "\<exists>b. demo_no_python_ctx ''bindings'' = Some b \<and> contains b ''python'' = Inr False"
    by (simp add: demo_no_python_ctx_def)
  from make_idempotent_but_bindings[OF a]
  have "make demo_env IIRStage (demo_iir_ctx(''iir'' \<mapsto> PObj 3))
       = Inr (demo_iir_ctx(''iir'' \<mapsto> PObj 3))"
    by simp
  moreover from make_idempotent_but_bindings[OF b] np
  have "make demo_env BindingsStage demo_no_python_ctx = Inr demo_no_python_ctx"
    by simp
  ultimately show ?thesis
    using a by simp
qed

text \<open>
  C8. The constructor keeps every value passed to it (other than \<open>None\<close>): no such key,
  \<open>name\<close> and \<open>module\<close> included, is replaced by the value derived from the definition or
  by a default, and \<open>_set_no_replace\<close> leaves an existing key as it is. A successful
  \<open>make\<close> of any stage removes no key and changes only the keys that stage derives
  (\<open>written_keys\<close>: \<open>options_id\<close>, \<open>id\<close>, \<open>ir\<close>, \<open>iir\<close>, \<open>src\<close>, \<open>generator_options\<close>,
  \<open>bindings_src\<close>); none of them is a key the constructor sets, so every stage leaves
  \<open>definition\<close>, \<open>module\<close>, \<open>name\<close>, \<open>qualified_name\<close>, \<open>externals\<close>, \<open>build_info\<close>
  and \<open>options\<close> as they were.
\<close>

theorem context_keys_first_writer_wins:
  "(BuildContext_init env dfn kwargs = Inr c0 \<longrightarrow>
      (\<forall>k v. kwargs k = Some v \<and> v \<noteq> PNone \<longrightarrow> c0 k = Some v))
   \<and> (k \<in> dom c \<longrightarrow> set_no_replace c k v = c)
   \<and> (make env s c = Inr c' \<longrightarrow>
        dom c \<subseteq> dom c'
      \<and> (\<forall>k. k \<notin> written_keys s \<longrightarrow> c' k = c k)
      \<and> (\<forall>k \<in> identity_keys. c' k = c k))
   \<and> identity_keys \<inter> written_keys s = {}"
proof -
  have disj: "identity_keys \<inter> written_keys s = {}"
    by (cases s) (simp_all add: identity_keys_def)
  have ident: "\<forall>k \<in> identity_keys. c' k = c k" if "make env s c = Inr c'"
  proof
    fix k assume "k \<in> identity_keys"
    with disj have "k \<notin> written_keys s" by auto
    with that show "c' k = c k" by (rule make_frame)
  qed
  have init: "BuildContext_init env dfn kwargs = Inr c0 \<longrightarrow>
      (\<forall>k v. kwargs k = Some v \<and> v \<noteq> PNone \<longrightarrow> c0 k = Some v)"
    by (auto intro: BuildContext_init_keeps)
  have keep: "k \<in> dom c \<longrightarrow> set_no_replace c k v = c"
    by (simp add: set_no_replace_dom)
  have stage: "make env s c = Inr c' \<longrightarrow>
        dom c \<subseteq> dom c'
      \<and> (\<forall>k. k \<notin> written_keys s \<longrightarrow> c' k = c k)
      \<and> (\<forall>k \<in> identity_keys. c' k = c k)"
  proof
    assume m: "make env s c = Inr c'"
    from m have "dom c \<subseteq> dom c'" by (rule make_dom)
    moreover have "\<forall>k. k \<notin> written_keys s \<longrightarrow> c' k = c k"
      using make_frame[OF m] by blast
    ultimately show "dom c \<subseteq> dom c'
      \<and> (\<forall>k. k \<notin> written_keys s \<longrightarrow> c' k = c k)
      \<and> (\<forall>k \<in> identity_keys. c' k = c k)"
      using ident[OF m] by blast
  qed
  from init keep stage disj show ?thesis
    by blast
qed

theorem context_keys_first_writer_wins_witness:
  "BuildContext_init demo_env (PObj 0) [''name'' \<mapsto> PStr ''mine''] = Inr demo_named_ctx
   \<and> definition_name demo_env (PObj 0) = Inr (PStr ''copy'')
   \<and> demo_named_ctx ''name'' = Some (PStr ''mine'')
   \<and> ''name'' \<in> dom demo_named_ctx
   \<and> set_no_replace demo_named_ctx ''name'' (PStr ''copy'') = demo_named_ctx
   \<and> make demo_env IIRStage demo_iir_ctx = Inr (demo_iir_ctx(''iir'' \<mapsto> PObj 3))
   \<and> (demo_iir_ctx(''iir'' \<mapsto> PObj 3)) ''options'' = demo_iir_ctx ''options''"
proof -
  note res = context_keys_first_writer_wins[of demo_env "PObj 0" "[''name'' \<mapsto> PStr ''mine'']"
      demo_named_ctx "''name''" demo_named_ctx "PStr ''copy''" IIRStage
      "demo_iir_ctx(''iir'' \<mapsto> PObj 3)"]
  have a: "make demo_env IIRStage demo_iir_ctx = Inr (demo_iir_ctx(''iir'' \<mapsto> PObj 3))"
    by (simp add: make_IIRStage_def demo_env_def demo_iir_ctx_def bind_def getitem_def)
  have d: "''name'' \<in> dom demo_named_ctx"
    by (simp add: demo_named_ctx_def)
  from res demo_named_ctx_init have "demo_named_ctx ''name'' = Some (PStr ''mine'')"
    by simp
  moreover from res d have "set_no_replace demo_named_ctx ''name'' (PStr ''copy'') = demo_named_ctx"
    by simp
  moreover have "definition_name demo_env (PObj 0) = Inr (PStr ''copy'')"
    by (simp add: demo_env_def)
  ultimately show ?thesis
    using demo_named_ctx_init a d by simp
qed

text \<open>
  C10. When the \<open>bindings\<close> entry of the context is a list that does not contain
  \<open>python\<close>, \<open>BindingsStage._make\<close> returns with the context exactly as it was: no key is
  added, removed or changed, \<open>bindings_src\<close> and \<open>generator_options\<close> included; the
  stage is final all the same.
\<close>

theorem bindings_stage_without_python_unchanged:
  assumes "c ''bindings'' = Some (PList langs)" and "PStr ''python'' \<notin> set langs"
  shows "make env BindingsStage c = Inr c
       \<and> is_final env BindingsStage c = Inr True
       \<and> make_next env BindingsStage c = Inr None"
  using assms
  by (simp add: make_BindingsStage_def bind_def getitem_def make_next_def)

theorem bindings_stage_without_python_unchanged_witness:
  "demo_no_python_ctx ''bindings'' = Some (PList [PStr ''cuda''])
   \<and> PStr ''python'' \<notin> set [PStr ''cuda'']
   \<and> make demo_env BindingsStage demo_no_python_ctx = Inr demo_no_python_ctx
   \<and> demo_no_python_ctx ''bindings_src'' = None
   \<and> demo_no_python_ctx ''generator_options'' = None"
proof -
  have a: "demo_no_python_ctx ''bindings'' = Some (PList [PStr ''cuda''])"
    by (simp add: demo_no_python_ctx_def)
  have b: "PStr ''python'' \<notin> set [PStr ''cuda'']"
    by simp
  from bindings_stage_without_python_unchanged[where c = demo_no_python_ctx and env = demo_env, OF a b] a b show ?thesis
    by (simp add: demo_no_python_ctx_def)
qed

end
